theory Spec2Isabelle
  imports Main "HOL-Library.Sublist" "HOL-Library.Multiset"
begin

section \<open>JavaScript values and strings\<close>

text \<open>
  A JavaScript string is modelled as a \<^typ>\<open>string\<close>: one \<^typ>\<open>char\<close> per code unit, with
  the code units restricted to the range 0..255.  Numbers are modelled as mathematical
  integers plus \<open>NaN\<close>; this is exact for the integral doubles of the safe range
  (magnitude below \<open>2 ^ 53\<close>), which is where the script's counters and identifiers live.
  Beyond it the model keeps the exact integer where JavaScript rounds to the nearest double.
\<close>

datatype jsval = JUndefined | JNull | JBool bool | JNum int | JNaN | JStr string

type_synonym jsobj = "(string \<times> jsval) list"

definition nl :: string where
  "nl = [CHR 0x0A]"

abbreviation apostrophe :: char where
  "apostrophe \<equiv> CHR 0x27"

abbreviation dq :: string where
  "dq \<equiv> [CHR 0x22]"

abbreviation sq :: string where
  "sq \<equiv> [CHR 0x27]"

text \<open>The operand test of \<open>!x\<close>, \<open>x || y\<close> and \<open>x ? a : b\<close> (ToBoolean).\<close>

fun truthy :: "jsval \<Rightarrow> bool" where
  "truthy JUndefined = False"
| "truthy JNull = False"
| "truthy (JBool b) = b"
| "truthy (JNum n) = (n \<noteq> 0)"
| "truthy JNaN = False"
| "truthy (JStr s) = (s \<noteq> [])"

definition js_or :: "jsval \<Rightarrow> jsval \<Rightarrow> jsval" where
  "js_or a b = (if truthy a then a else b)"

text \<open>\<open>s || t\<close> on two strings.\<close>

definition or_str :: "string \<Rightarrow> string \<Rightarrow> string" where
  "or_str a b = (if a \<noteq> [] then a else b)"

text \<open>Property read \<open>o.k\<close> on a plain object: a missing member reads as \<open>undefined\<close>.\<close>

definition get_prop :: "jsobj \<Rightarrow> string \<Rightarrow> jsval" where
  "get_prop ob k = (case map_of ob k of None \<Rightarrow> JUndefined | Some v \<Rightarrow> v)"

subsection \<open>Number to string\<close>

definition digit_char :: "nat \<Rightarrow> char" where
  "digit_char d = ''0123456789'' ! d"

fun nat_digits :: "nat \<Rightarrow> string" where
  "nat_digits n = (if n < 10 then [digit_char n] else nat_digits (n div 10) @ [digit_char (n mod 10)])"

declare nat_digits.simps [simp del]

text \<open>
  \<open>Number.prototype.toString()\<close> on an integer: plain decimal digits below \<open>10^21\<close>,
  the exponent form from there on (\<open>1e+21\<close>, \<open>1.5e+21\<close>).  In the exponent form the model
  prints the digits of the integer itself, which are the digits JavaScript prints whenever
  they are the shortest that identify the double, as for the powers of ten.
\<close>

definition strip_zeros :: "string \<Rightarrow> string" where
  "strip_zeros ds = rev (dropWhile (\<lambda>c. c = CHR ''0'') (rev ds))"

fun exponent10 :: "nat \<Rightarrow> nat" where
  "exponent10 m = (if m < 10 then 0 else 1 + exponent10 (m div 10))"

declare exponent10.simps [simp del]

definition exp_form :: "nat \<Rightarrow> string" where
  "exp_form m =
     (let sig = strip_zeros (nat_digits m)
      in hd sig # (if tl sig = [] then [] else CHR ''.'' # tl sig) @ ''e+'' @ nat_digits (exponent10 m))"

definition magnitude_toString :: "nat \<Rightarrow> string" where
  "magnitude_toString m = (if m < 10 ^ 21 then nat_digits m else exp_form m)"

definition num_toString :: "int \<Rightarrow> string" where
  "num_toString n = (if n < 0 then CHR ''-'' # magnitude_toString (nat (- n)) else magnitude_toString (nat n))"

text \<open>ToString, as applied by template literals and by \<open>parseInt\<close> to its argument.\<close>

fun toString :: "jsval \<Rightarrow> string" where
  "toString JUndefined = ''undefined''"
| "toString JNull = ''null''"
| "toString (JBool b) = (if b then ''true'' else ''false'')"
| "toString (JNum n) = num_toString n"
| "toString JNaN = ''NaN''"
| "toString (JStr s) = s"

subsection \<open>Whitespace and \<open>trim\<close>\<close>

text \<open>
  WhiteSpace and LineTerminator code units below 256: TAB, LF, VT, FF, CR, SP, NBSP.
  The same set is the \<open>\s\<close> class of regular expressions.
\<close>

definition js_space :: "char \<Rightarrow> bool" where
  "js_space c = (c \<in> set [CHR 0x09, CHR 0x0A, CHR 0x0B, CHR 0x0C, CHR 0x0D, CHR 0x20, CHR 0xA0])"

definition trimStart :: "string \<Rightarrow> string" where
  "trimStart s = dropWhile js_space s"

definition trim :: "string \<Rightarrow> string" where
  "trim s = rev (dropWhile js_space (rev (dropWhile js_space s)))"

subsection \<open>\<open>parseInt\<close>\<close>

definition digit_val :: "char \<Rightarrow> nat option" where
  "digit_val c =
     (let n = (of_char c :: nat) in
      if 48 \<le> n \<and> n \<le> 57 then Some (n - 48)
      else if 97 \<le> n \<and> n \<le> 102 then Some (n - 87)
      else if 65 \<le> n \<and> n \<le> 70 then Some (n - 55)
      else None)"

definition is_digit_in :: "nat \<Rightarrow> char \<Rightarrow> bool" where
  "is_digit_in radix c = (case digit_val c of None \<Rightarrow> False | Some d \<Rightarrow> d < radix)"

definition digits_value :: "nat \<Rightarrow> string \<Rightarrow> nat" where
  "digits_value radix z = foldl (\<lambda>acc c. acc * radix + (case digit_val c of None \<Rightarrow> 0 | Some d \<Rightarrow> d)) 0 z"

text \<open>
  \<open>parseInt(string)\<close> with no radix argument: leading whitespace is skipped, a sign is
  read, a \<open>0x\<close>/\<open>0X\<close> prefix selects radix 16, and the longest prefix of digits is
  converted; no digit at all gives \<open>NaN\<close> (\<open>None\<close>).
\<close>

definition parseInt_str :: "string \<Rightarrow> int option" where
  "parseInt_str inputString =
     (let s0 = trimStart inputString;
          sign = (if s0 \<noteq> [] \<and> hd s0 = CHR ''-'' then - 1 else 1 :: int);
          s1 = (if s0 \<noteq> [] \<and> (hd s0 = CHR ''+'' \<or> hd s0 = CHR ''-'') then tl s0 else s0);
          hex = (take 2 s1 = ''0x'' \<or> take 2 s1 = ''0X'');
          radix = (if hex then 16 else 10 :: nat);
          s2 = (if hex then drop 2 s1 else s1);
          z = takeWhile (is_digit_in radix) s2
      in if z = [] then None else Some (sign * int (digits_value radix z)))"

definition parseInt :: "jsval \<Rightarrow> jsval" where
  "parseInt v = (case parseInt_str (toString v) of None \<Rightarrow> JNaN | Some n \<Rightarrow> JNum n)"

section \<open>XML escaping and the XML request body\<close>

text \<open>\<open>s.replace(/c/g, r)\<close> for a one-character pattern.\<close>

definition replaceAll :: "char \<Rightarrow> string \<Rightarrow> string \<Rightarrow> string" where
  "replaceAll c r s = concat (map (\<lambda>x. if x = c then r else [x]) s)"

definition escapeXml :: "string \<Rightarrow> string" where
  "escapeXml unsafe =
     (if unsafe = [] then []
      else replaceAll apostrophe ''&apos;''
            (replaceAll (CHR 0x22) ''&quot;''
              (replaceAll (CHR ''>'') ''&gt;''
                (replaceAll (CHR ''<'') ''&lt;''
                  (replaceAll (CHR ''&'') ''&amp;'' unsafe)))))"

text \<open>The record returned by \<open>getFormData\<close>.\<close>

record formData =
  guest_name :: string
  email :: string
  phone :: string
  street_address :: string
  municipality :: string
  region :: string
  country :: string
  resort_name :: string
  checkin_date :: string
  checkout_date :: string
  guests :: jsval
  payment_gateway :: string

definition xml_prolog :: string where
  "xml_prolog = ''<?xml version='' @ [CHR 0x22] @ ''1.0'' @ [CHR 0x22] @ '' encoding=''
     @ [CHR 0x22] @ ''UTF-8'' @ [CHR 0x22] @ ''?>''"

text \<open>One line of the template: four blanks, the element with its escaped value, a newline.\<close>

definition xml_line :: "string \<Rightarrow> string \<Rightarrow> string" where
  "xml_line tag v = ''    <'' @ tag @ ''>'' @ escapeXml v @ ''</'' @ tag @ ''>'' @ nl"

text \<open>The values interpolated by \<open>submitReservation\<close>, in template order.\<close>

definition xml_fields :: "formData \<Rightarrow> (string \<times> string) list" where
  "xml_fields fd =
     [(''guest_name'', guest_name fd),
      (''email'', email fd),
      (''phone'', or_str (phone fd) []),
      (''street_address'', or_str (street_address fd) []),
      (''municipality'', or_str (municipality fd) []),
      (''region'', or_str (region fd) []),
      (''country'', or_str (country fd) []),
      (''resort_name'', resort_name fd),
      (''checkin_date'', checkin_date fd),
      (''checkout_date'', checkout_date fd),
      (''guests'', toString (guests fd)),
      (''payment_gateway'', or_str (payment_gateway fd) [])]"

definition xmlBody :: "formData \<Rightarrow> string" where
  "xmlBody fd = xml_prolog @ nl @ ''<reservation>'' @ nl
     @ concat (map (\<lambda>(tag, v). xml_line tag v) (xml_fields fd))
     @ ''</reservation>''"

text \<open>The replacement of a single character under \<open>escapeXml\<close>.\<close>

definition xml_entity :: "char \<Rightarrow> string" where
  "xml_entity c =
     (if c = CHR ''&'' then ''&amp;''
      else if c = CHR ''<'' then ''&lt;''
      else if c = CHR ''>'' then ''&gt;''
      else if c = CHR 0x22 then ''&quot;''
      else if c = apostrophe then ''&apos;''
      else [c])"



section \<open>Form input\<close>

text \<open>
  The page's input elements are modelled by their current values:
  \<open>form id\<close> is \<open>document.getElementById(id).value\<close>.  The elements themselves are
  declared by the page's HTML and always exist.
\<close>

type_synonym dom_values = "string \<Rightarrow> string"

text \<open>A form given by the values of the listed inputs; every other input is empty.\<close>

definition form_of :: "(string \<times> string) list \<Rightarrow> dom_values" where
  "form_of kvs k = (case map_of kvs k of None \<Rightarrow> [] | Some v \<Rightarrow> v)"

definition getFormData :: "dom_values \<Rightarrow> formData" where
  "getFormData form =
     \<lparr> guest_name = trim (form ''guest_name''),
       email = trim (form ''email''),
       phone = trim (form ''phone''),
       street_address = trim (form ''street_address''),
       municipality = trim (form ''municipality''),
       region = trim (form ''region''),
       country = trim (form ''country''),
       resort_name = form ''resort_name'',
       checkin_date = form ''checkin_date'',
       checkout_date = form ''checkout_date'',
       guests = js_or (parseInt (JStr (form ''guests''))) (JNum 1),
       payment_gateway = form ''payment_gateway'' \<rparr>"

section \<open>Effects\<close>

text \<open>
  What a handler does to the outside is recorded as a list of effects, in program order:
  a call of \<open>showMessage(message, type)\<close>, a \<open>focus()\<close> on an input, a call of
  \<open>fetch\<close> with its method, URL, content type and body (both empty when the call
  gives none), and a \<open>confirm\<close> dialog.  Console output,
  the timed border colour of \<open>validateForms\<close> and smooth scrolling are not recorded.
\<close>

datatype effect =
    ShowMessage string string
  | Focus string
  | Fetch string string string string
  | Confirm string

text \<open>The pictographs of the message texts, as their UTF-8 bytes.\<close>

definition cross_mark :: string where
  "cross_mark = [CHR 0xE2, CHR 0x9D, CHR 0x8C]"

definition check_mark :: string where
  "check_mark = [CHR 0xE2, CHR 0x9C, CHR 0x85]"

definition warning_sign :: string where
  "warning_sign = [CHR 0xE2, CHR 0x9A, CHR 0xA0, CHR 0xEF, CHR 0xB8, CHR 0x8F]"

section \<open>Validation\<close>

text \<open>
  What the script takes from the browser and from the page is a parameter:
  \<open>parseDate s\<close> is the time value of \<open>new Date(s)\<close> in milliseconds, \<open>None\<close> for an
  invalid date (\<open>NaN\<close>); \<open>tomorrow\<close> is the time value of the next local midnight;
  \<open>localeDate v\<close> is \<open>new Date(v).toLocaleDateString('en-US', ...)\<close>;
  \<open>stringify\<close> is \<open>JSON.stringify\<close> on a form record; \<open>formDefaults\<close> are the
  values the page's HTML gives the inputs, restored by \<open>form.reset()\<close>; and
  \<open>nullReadMessage\<close> is the message of the \<open>TypeError\<close> thrown by a member read on
  \<open>null\<close>.
\<close>

record env =
  parseDate :: "string \<Rightarrow> int option"
  tomorrow :: int
  localeDate :: "jsval \<Rightarrow> string"
  stringify :: "formData \<Rightarrow> string"
  formDefaults :: "string \<Rightarrow> string"
  nullReadMessage :: string

text \<open>The relational operators on two time values; a comparison with \<open>NaN\<close> is false.\<close>

definition time_le :: "int option \<Rightarrow> int option \<Rightarrow> bool" where
  "time_le a b = (case a of None \<Rightarrow> False | Some x \<Rightarrow> (case b of None \<Rightarrow> False | Some y \<Rightarrow> x \<le> y))"

definition time_lt :: "int option \<Rightarrow> int option \<Rightarrow> bool" where
  "time_lt a b = (case a of None \<Rightarrow> False | Some x \<Rightarrow> (case b of None \<Rightarrow> False | Some y \<Rightarrow> x < y))"

text \<open>\<open>s.replace(c, r)\<close> with a string pattern of one character: the first occurrence only.\<close>

fun replaceFirst :: "char \<Rightarrow> string \<Rightarrow> string \<Rightarrow> string" where
  "replaceFirst c r [] = []"
| "replaceFirst c r (x # xs) = (if x = c then r @ xs else x # replaceFirst c r xs)"

definition requiredFields :: "string list" where
  "requiredFields = [''guest_name'', ''email'', ''resort_name'', ''checkin_date'', ''checkout_date'', ''guests'']"

text \<open>The regular expression \<open>/^[^\s@]+@[^\s@]+\.[^\s@]+$/\<close>.\<close>

definition email_char :: "char \<Rightarrow> bool" where
  "email_char c = (\<not> js_space c \<and> c \<noteq> CHR ''@'')"

definition emailRegex_test :: "string \<Rightarrow> bool" where
  "emailRegex_test s =
     (let local = takeWhile email_char s; rest = dropWhile email_char s
      in local \<noteq> [] \<and> rest \<noteq> [] \<and> hd rest = CHR ''@''
         \<and> list_all email_char (tl rest) \<and> CHR ''.'' \<in> set (butlast (tl (tl rest))))"

text \<open>The regular expression \<open>/^09\d{9}$/\<close>.\<close>

definition dec_digit :: "char \<Rightarrow> bool" where
  "dec_digit c = (48 \<le> (of_char c :: nat) \<and> (of_char c :: nat) \<le> 57)"

definition phoneRegex_test :: "string \<Rightarrow> bool" where
  "phoneRegex_test s = (length s = 11 \<and> take 2 s = ''09'' \<and> list_all dec_digit (drop 2 s))"

definition fill_in_message :: "string \<Rightarrow> string" where
  "fill_in_message fieldId = cross_mark @ '' Please fill in: '' @ replaceFirst (CHR ''_'') '' '' fieldId"

definition date_order_message :: string where
  "date_order_message = cross_mark @ '' Check-out date must be after check-in date''"

definition tomorrow_message :: string where
  "tomorrow_message = warning_sign @ '' Check-in date should be at least tomorrow''"

definition phone_message :: string where
  "phone_message = warning_sign @ '' Phone should be 11 digits starting with 09 (e.g., 09171234567)''"

text \<open>The loop over the required fields: the first one that is empty after trimming.\<close>

fun first_missing :: "dom_values \<Rightarrow> string list \<Rightarrow> string option" where
  "first_missing form [] = None"
| "first_missing form (fieldId # rest) =
     (if trim (form fieldId) = [] then Some fieldId else first_missing form rest)"

text \<open>The phone check that ends \<open>validateForms\<close>; it only warns.\<close>

definition phone_check :: "dom_values \<Rightarrow> effect list" where
  "phone_check form =
     (let phone = form ''phone''
      in if phone \<noteq> [] \<and> \<not> phoneRegex_test phone then [ShowMessage phone_message ''warning''] else [])"

text \<open>\<open>validateForms\<close>: the verdict and the effects it performed.\<close>

definition validateForms :: "env \<Rightarrow> dom_values \<Rightarrow> bool \<times> effect list" where
  "validateForms env form =
     (case first_missing form requiredFields of
        Some fieldId \<Rightarrow> (False, [ShowMessage (fill_in_message fieldId) ''error'', Focus fieldId])
      | None \<Rightarrow>
          if \<not> emailRegex_test (form ''email'')
          then (False, [ShowMessage (cross_mark @ '' Please enter a valid email address'') ''error'',
                        Focus ''email''])
          else
            let checkin = form ''checkin_date''; checkout = form ''checkout_date''
            in if checkin \<noteq> [] \<and> checkout \<noteq> []
               then
                 let checkinDate = parseDate env checkin; checkoutDate = parseDate env checkout
                 in if time_le checkoutDate checkinDate
                    then (False, [ShowMessage date_order_message ''error'', Focus ''checkout_date''])
                    else if time_lt checkinDate (Some (tomorrow env))
                    then (True, ShowMessage tomorrow_message ''warning'' # phone_check form)
                    else (True, phone_check form)
               else (True, phone_check form))"

section \<open>A model of the XML reader\<close>

text \<open>
  \<open>DOMParser\<close> is a browser built-in.  It is modelled by a one-pass reader for the
  following subset of XML 1.0: processing instructions (the XML declaration among them,
  skipped), elements with attributes, empty-element tags, character data, and references to
  the five predefined entities in character data.  Comments, CDATA sections, document type
  declarations, character references, references inside attribute values and qualified
  names are outside the subset; the reader rejects them.  Line ends are normalised before
  reading, as the XML recommendation prescribes.
\<close>

datatype xml_node = Element string "(string \<times> string) list" "xml_node list" | Text string

definition xml_space :: "char \<Rightarrow> bool" where
  "xml_space c = (c \<in> set [CHR 0x20, CHR 0x09, CHR 0x0D, CHR 0x0A])"

text \<open>The production \<open>Char\<close>, below 256.\<close>

definition xml_char :: "char \<Rightarrow> bool" where
  "xml_char c = (32 \<le> (of_char c :: nat) \<or> xml_space c)"

definition name_start :: "char \<Rightarrow> bool" where
  "name_start c =
     (let n = (of_char c :: nat)
      in (65 \<le> n \<and> n \<le> 90) \<or> (97 \<le> n \<and> n \<le> 122) \<or> n = 95
         \<or> (192 \<le> n \<and> n \<noteq> 215 \<and> n \<noteq> 247))"

definition name_char :: "char \<Rightarrow> bool" where
  "name_char c = (name_start c \<or> dec_digit c \<or> c = CHR ''-'' \<or> c = CHR ''.'' \<or> (of_char c :: nat) = 183)"

fun normalize_eol :: "string \<Rightarrow> string" where
  "normalize_eol [] = []"
| "normalize_eol [c] = [if c = CHR 0x0D then CHR 0x0A else c]"
| "normalize_eol (c # d # ds) =
     (if c = CHR 0x0D \<and> d = CHR 0x0A then CHR 0x0A # normalize_eol ds
      else if c = CHR 0x0D then CHR 0x0A # normalize_eol (d # ds)
      else c # normalize_eol (d # ds))"

definition predefined :: "(string \<times> char) list" where
  "predefined = [(''amp'', CHR ''&''), (''lt'', CHR ''<''), (''gt'', CHR ''>''),
                 (''quot'', CHR 0x22), (''apos'', apostrophe)]"

type_synonym attrs = "(string \<times> string) list"

text \<open>
  Where the reader stands: in character data (with the text read so far), in a reference
  (text so far, entity name so far), just after \<open><\<close>, in a processing instruction (was the
  last character a \<open>?\<close>), in the name of a start tag, inside a start tag after its name
  (may an attribute name start here), in an attribute name, before \<open>=\<close>, before the
  opening quote, in an attribute value, after the \<open>/\<close> of an empty-element tag, in the name
  of an end tag, in the blanks that may follow it.
\<close>

datatype pmode =
    Content string
  | Reference string string
  | Markup
  | Instruction bool
  | OpenName string
  | InTag string attrs bool
  | AttrName string attrs string
  | AttrEq string attrs string
  | AttrQuote string attrs string
  | AttrValue string attrs string char string
  | EmptyTag string attrs
  | CloseName string
  | CloseSpace string

text \<open>The reader's state: the mode, the open elements (innermost first) with the children
  read so far, and the root element once it is closed.\<close>

record pstate =
  p_mode :: pmode
  p_open :: "(string \<times> attrs \<times> xml_node list) list"
  p_root :: "xml_node option"

definition add_node :: "xml_node \<Rightarrow> pstate \<Rightarrow> pstate option" where
  "add_node node st =
     (case p_open st of
        (n, a, kids) # rest \<Rightarrow> Some (st\<lparr>p_open := (n, a, kids @ [node]) # rest\<rparr>)
      | [] \<Rightarrow>
          (case node of
             Text t \<Rightarrow> None
           | Element n a kids \<Rightarrow> if p_root st = None then Some (st\<lparr>p_root := Some node\<rparr>) else None))"

definition flush_text :: "string \<Rightarrow> pstate \<Rightarrow> pstate option" where
  "flush_text acc st =
     (if acc = [] then Some st
      else if p_open st = [] then (if list_all xml_space acc then Some st else None)
      else add_node (Text acc) st)"

definition open_elem :: "string \<Rightarrow> attrs \<Rightarrow> pstate \<Rightarrow> pstate option" where
  "open_elem n a st =
     (if p_open st = [] \<and> p_root st \<noteq> None then None
      else Some (st\<lparr>p_mode := Content [], p_open := (n, a, []) # p_open st\<rparr>))"

definition empty_elem :: "string \<Rightarrow> attrs \<Rightarrow> pstate \<Rightarrow> pstate option" where
  "empty_elem n a st = add_node (Element n a []) (st\<lparr>p_mode := Content []\<rparr>)"

definition close_elem :: "string \<Rightarrow> pstate \<Rightarrow> pstate option" where
  "close_elem name st =
     (case p_open st of
        [] \<Rightarrow> None
      | (n, a, kids) # rest \<Rightarrow>
          if n = name then add_node (Element n a kids) (st\<lparr>p_mode := Content [], p_open := rest\<rparr>)
          else None)"

definition set_mode :: "pmode \<Rightarrow> pstate \<Rightarrow> pstate option" where
  "set_mode m st = Some (st\<lparr>p_mode := m\<rparr>)"

fun step :: "char \<Rightarrow> pstate \<Rightarrow> pstate option" where
  "step c st =
     (case p_mode st of
        Content acc \<Rightarrow>
          if c = CHR ''<'' then (case flush_text acc st of None \<Rightarrow> None | Some st' \<Rightarrow> set_mode Markup st')
          else if c = CHR ''&'' then (if p_open st = [] then None else set_mode (Reference acc []) st)
          else if \<not> xml_char c then None
          else if c = CHR ''>'' \<and> take 2 (rev acc) = '']]'' then None
          else set_mode (Content (acc @ [c])) st
      | Reference acc name \<Rightarrow>
          if c = CHR '';'' then
            (case map_of predefined name of None \<Rightarrow> None | Some x \<Rightarrow> set_mode (Content (acc @ [x])) st)
          else if name_char c then set_mode (Reference acc (name @ [c])) st
          else None
      | Markup \<Rightarrow>
          if c = CHR ''?'' then set_mode (Instruction False) st
          else if c = CHR ''/'' then set_mode (CloseName []) st
          else if name_start c then set_mode (OpenName [c]) st
          else None
      | Instruction q \<Rightarrow>
          if c = CHR ''>'' \<and> q then set_mode (Content []) st
          else if xml_char c then set_mode (Instruction (c = CHR ''?'')) st
          else None
      | OpenName n \<Rightarrow>
          if name_char c then set_mode (OpenName (n @ [c])) st
          else if xml_space c then set_mode (InTag n [] True) st
          else if c = CHR ''>'' then open_elem n [] st
          else if c = CHR ''/'' then set_mode (EmptyTag n []) st
          else None
      | InTag n a sp \<Rightarrow>
          if xml_space c then set_mode (InTag n a True) st
          else if c = CHR ''>'' then open_elem n a st
          else if c = CHR ''/'' then set_mode (EmptyTag n a) st
          else if name_start c \<and> sp then set_mode (AttrName n a [c]) st
          else None
      | AttrName n a k \<Rightarrow>
          if name_char c then set_mode (AttrName n a (k @ [c])) st
          else if xml_space c then set_mode (AttrEq n a k) st
          else if c = CHR ''='' then set_mode (AttrQuote n a k) st
          else None
      | AttrEq n a k \<Rightarrow>
          if xml_space c then set_mode (AttrEq n a k) st
          else if c = CHR ''='' then set_mode (AttrQuote n a k) st
          else None
      | AttrQuote n a k \<Rightarrow>
          if xml_space c then set_mode (AttrQuote n a k) st
          else if c = CHR 0x22 \<or> c = apostrophe then set_mode (AttrValue n a k c []) st
          else None
      | AttrValue n a k q v \<Rightarrow>
          if c = q then (if map_of a k = None then set_mode (InTag n (a @ [(k, v)]) False) st else None)
          else if c = CHR ''<'' \<or> c = CHR ''&'' \<or> \<not> xml_char c then None
          else set_mode (AttrValue n a k q (v @ [if xml_space c then CHR 0x20 else c])) st
      | EmptyTag n a \<Rightarrow> if c = CHR ''>'' then empty_elem n a st else None
      | CloseName n \<Rightarrow>
          if n = [] then (if name_start c then set_mode (CloseName [c]) st else None)
          else if name_char c then set_mode (CloseName (n @ [c])) st
          else if xml_space c then set_mode (CloseSpace n) st
          else if c = CHR ''>'' then close_elem n st
          else None
      | CloseSpace n \<Rightarrow>
          if xml_space c then set_mode (CloseSpace n) st
          else if c = CHR ''>'' then close_elem n st
          else None)"

declare step.simps [simp del]

fun parse_chars :: "string \<Rightarrow> pstate \<Rightarrow> pstate option" where
  "parse_chars [] st = Some st"
| "parse_chars (c # cs) st = (case step c st of None \<Rightarrow> None | Some st' \<Rightarrow> parse_chars cs st')"

definition parse_start :: pstate where
  "parse_start = \<lparr>p_mode = Content [], p_open = [], p_root = None\<rparr>"

text \<open>The root element of a well-formed document of the subset; \<open>None\<close> otherwise.\<close>

definition xml_parse :: "string \<Rightarrow> xml_node option" where
  "xml_parse text =
     (case parse_chars (normalize_eol text) parse_start of
        None \<Rightarrow> None
      | Some st \<Rightarrow>
          (case p_mode st of
             Content acc \<Rightarrow> if p_open st = [] \<and> list_all xml_space acc then p_root st else None
           | _ \<Rightarrow> None))"

text \<open>
  \<open>parseFromString(text, 'text/xml')\<close> never throws: for a text that is not well-formed
  the document it returns holds a \<open>parsererror\<close> element in place of the content.  The
  document is represented by its root element.
\<close>

definition parseFromString :: "string \<Rightarrow> xml_node" where
  "parseFromString text = (case xml_parse text of Some r \<Rightarrow> r | None \<Rightarrow> Element ''parsererror'' [] [])"

subsection \<open>The DOM calls of the script\<close>

fun elements :: "xml_node \<Rightarrow> xml_node list" where
  "elements (Text t) = []"
| "elements (Element n a kids) = Element n a kids # concat (map elements kids)"

fun textContent :: "xml_node \<Rightarrow> string" where
  "textContent (Text t) = t"
| "textContent (Element n a kids) = concat (map textContent kids)"

fun nodeName :: "xml_node \<Rightarrow> string" where
  "nodeName (Text t) = ''#text''"
| "nodeName (Element n a kids) = n"

fun childNodes :: "xml_node \<Rightarrow> xml_node list" where
  "childNodes (Text t) = []"
| "childNodes (Element n a kids) = kids"

text \<open>\<open>document.getElementsByTagName\<close>: every element of the document, in document order.\<close>

definition doc_getElementsByTagName :: "xml_node \<Rightarrow> string \<Rightarrow> xml_node list" where
  "doc_getElementsByTagName root tagName = filter (\<lambda>e. nodeName e = tagName) (elements root)"

text \<open>\<open>element.getElementsByTagName\<close>: the descendants of the element, itself excluded.\<close>

definition getElementsByTagName :: "xml_node \<Rightarrow> string \<Rightarrow> xml_node list" where
  "getElementsByTagName element tagName =
     filter (\<lambda>e. nodeName e = tagName) (concat (map elements (childNodes element)))"

fun getAttribute :: "xml_node \<Rightarrow> string \<Rightarrow> jsval" where
  "getAttribute (Text t) k = JNull"
| "getAttribute (Element n a kids) k = (case map_of a k of None \<Rightarrow> JNull | Some v \<Rightarrow> JStr v)"

definition getXmlValue :: "xml_node \<Rightarrow> string \<Rightarrow> string" where
  "getXmlValue element tagName =
     (case getElementsByTagName element tagName of [] \<Rightarrow> [] | tag # _ \<Rightarrow> textContent tag)"

text \<open>The object built for one \<open><reservation>\<close> element by \<open>loadReservations\<close>.\<close>

definition readReservation :: "xml_node \<Rightarrow> jsobj" where
  "readReservation res =
     [(''id'', js_or (getAttribute res ''id'') (JStr (getXmlValue res ''id''))),
      (''guest_name'', JStr (getXmlValue res ''guest_name'')),
      (''email'', JStr (getXmlValue res ''email'')),
      (''phone'', JStr (getXmlValue res ''phone'')),
      (''street_address'', JStr (getXmlValue res ''street_address'')),
      (''municipality'', JStr (getXmlValue res ''municipality'')),
      (''region'', JStr (getXmlValue res ''region'')),
      (''country'', JStr (getXmlValue res ''country'')),
      (''resort_name'', JStr (getXmlValue res ''resort_name'')),
      (''checkin_date'', JStr (getXmlValue res ''checkin_date'')),
      (''checkout_date'', JStr (getXmlValue res ''checkout_date'')),
      (''guests'', parseInt (js_or (JStr (getXmlValue res ''guests'')) (JNum 1))),
      (''payment_gateway'', JStr (getXmlValue res ''payment_gateway'')),
      (''created_at'', JStr (getXmlValue res ''created_at''))]"

section \<open>The client\<close>

text \<open>
  The session state \<open>editMode\<close>/\<open>currentEditId\<close>, the values of the page's inputs, the
  rows of the reservations table (the \<open>innerHTML\<close> of each \<open>tr\<close>), the display style of
  the cancel button, the labels of the two submit buttons, and the effects performed so far.
  \<open>editReservation\<close> is only ever called from the \<open>onclick\<close> attributes written by
  \<open>renderTable\<close>, with a string literal, so an identifier is a string.
\<close>

record client =
  editMode :: bool
  currentEditId :: "string option"
  inputs :: dom_values
  tableRows :: "string list"
  cancelEditDisplay :: string
  submitJsonText :: string
  submitXmlText :: string
  log :: "effect list"

definition API_BASE :: string where
  "API_BASE = ''/reservations''"

text \<open>The result of \<open>response.json()\<close>: a primitive, a flat object or an array of flat objects.\<close>

datatype json = JsonValue jsval | JsonObject jsobj | JsonArray "jsobj list"

text \<open>
  A response: its status, its body text, and what \<open>response.json()\<close> settles to
  (\<open>Inl m\<close>: it rejects with a \<open>SyntaxError\<close> of message \<open>m\<close>).  \<open>fetch\<close> itself
  either rejects (no connection) or resolves to a response, whatever its status.
\<close>

record response =
  status :: nat
  body :: string
  json_body :: "string + json"

datatype fetch_outcome = Rejected string | Responded response

definition ok :: "response \<Rightarrow> bool" where
  "ok r = (200 \<le> status r \<and> status r \<le> 299)"

definition showMessage :: "string \<Rightarrow> string \<Rightarrow> client \<Rightarrow> client" where
  "showMessage message type st = st\<lparr>log := log st @ [ShowMessage message type]\<rparr>"

subsection \<open>Rendering the table\<close>

text \<open>
  \<open>div.textContent = text; return div.innerHTML\<close>: the serialisation of a text node
  escapes the ampersand, the two angle brackets and the no-break space, nothing else.
\<close>

definition html_entity :: "char \<Rightarrow> string" where
  "html_entity c =
     (if c = CHR ''&'' then ''&amp;''
      else if c = CHR ''<'' then ''&lt;''
      else if c = CHR ''>'' then ''&gt;''
      else if c = CHR 0xA0 then ''&nbsp;''
      else [c])"

definition escapeHtml :: "string \<Rightarrow> string" where
  "escapeHtml text = concat (map html_entity text)"

definition formatDate :: "env \<Rightarrow> jsval \<Rightarrow> string" where
  "formatDate env dateString = (if \<not> truthy dateString then [] else localeDate env dateString)"

text \<open>The comparator of the sort and the number it compares: \<open>parseInt(a.id) || 0\<close>.\<close>

definition idNum :: "jsobj \<Rightarrow> int" where
  "idNum a = (case js_or (parseInt (get_prop a ''id'')) (JNum 0) of JNum n \<Rightarrow> n | _ \<Rightarrow> 0)"

definition compareIds :: "jsobj \<Rightarrow> jsobj \<Rightarrow> int" where
  "compareIds a b = (let idA = idNum a; idB = idNum b in idB - idA)"

text \<open>
  \<open>Array.prototype.sort\<close> with a comparator is a stable sort; for a consistent comparator
  its result does not depend on the engine's algorithm.  It is modelled by insertion from
  the right, which puts an element before the first one it does not have to follow.
\<close>

fun insert_cmp :: "('a \<Rightarrow> 'a \<Rightarrow> int) \<Rightarrow> 'a \<Rightarrow> 'a list \<Rightarrow> 'a list" where
  "insert_cmp cmp x [] = [x]"
| "insert_cmp cmp x (y # ys) = (if cmp x y \<le> 0 then x # y # ys else y # insert_cmp cmp x ys)"

definition sort_cmp :: "('a \<Rightarrow> 'a \<Rightarrow> int) \<Rightarrow> 'a list \<Rightarrow> 'a list" where
  "sort_cmp cmp xs = foldr (insert_cmp cmp) xs []"

definition placeholder_row :: string where
  "placeholder_row =
     nl @ ''                <td colspan='' @ dq @ ''8'' @ dq @ '' style='' @ dq
     @ ''text-align: center; padding: 40px; color: #666;'' @ dq @ ''>'' @ nl
     @ ''                    '' @ [CHR 0xF0, CHR 0x9F, CHR 0x93, CHR 0xAD]
     @ '' No reservations found. Create your first reservation above!'' @ nl
     @ ''                </td>'' @ nl @ ''            ''"

text \<open>The string assigned to \<open>row.innerHTML\<close>.\<close>

definition renderRow :: "env \<Rightarrow> jsobj \<Rightarrow> string" where
  "renderRow env reservation =
     (let id = get_prop reservation ''id''
      in
        nl @ ''            <td><strong style='' @ dq @ ''font-size: 1.1em; color: #2c3e50;''
        @ dq @ ''>#'' @ toString id @ ''</strong></td>'' @ nl @ ''            <td>''
        @ escapeHtml (toString (js_or (get_prop reservation ''guest_name'') (JStr [])))
        @ ''</td>'' @ nl @ ''            <td>''
        @ escapeHtml (toString (js_or (get_prop reservation ''email'') (JStr [])))
        @ ''</td>'' @ nl @ ''            <td>''
        @ escapeHtml (toString (js_or (get_prop reservation ''resort_name'') (JStr [])))
        @ ''</td>'' @ nl @ ''            <td>''
        @ or_str (formatDate env (get_prop reservation ''checkin_date'')) [] @ ''</td>''
        @ nl @ ''            <td>''
        @ or_str (formatDate env (get_prop reservation ''checkout_date'')) [] @ ''</td>''
        @ nl @ ''            <td><span class='' @ dq @ ''guest-count'' @ dq @ ''>''
        @ toString (js_or (get_prop reservation ''guests'') (JNum 1)) @ ''</span></td>''
        @ nl @ ''            <td>'' @ nl @ ''                <button class='' @ dq
        @ ''action-btn view'' @ dq @ '' onclick='' @ dq @ ''viewReservation('' @ sq
        @ toString id @ sq @ '')'' @ dq @ '' title='' @ dq @ ''View Details'' @ dq @ ''>''
        @ [CHR 0xF0, CHR 0x9F, CHR 0x91, CHR 0x81] @ '' View</button>'' @ nl
        @ ''                <button class='' @ dq @ ''action-btn edit'' @ dq @ '' onclick=''
        @ dq @ ''editReservation('' @ sq @ toString id @ sq @ '')'' @ dq @ '' title='' @ dq
        @ ''Edit'' @ dq @ ''>'' @ [CHR 0xE2, CHR 0x9C, CHR 0x8F] @ '' Edit</button>'' @ nl
        @ ''                <button class='' @ dq @ ''action-btn delete'' @ dq
        @ '' onclick='' @ dq @ ''deleteReservation('' @ sq @ toString id @ sq @ '')'' @ dq
        @ '' title='' @ dq @ ''Delete'' @ dq @ ''>''
        @ [CHR 0xF0, CHR 0x9F, CHR 0x97, CHR 0x91] @ '' Delete</button>'' @ nl
        @ ''            </td>'' @ nl @ ''        '')"

text \<open>
  \<open>renderTable\<close> on what the caller hands it.  The table is emptied first.  Reading
  \<open>.length\<close> of \<open>null\<close> throws; a value that is not an array has no \<open>sort\<close>, and
  calling it throws.  An exception is returned by its message, beside the state it leaves.
\<close>

definition renderTable :: "env \<Rightarrow> json \<Rightarrow> client \<Rightarrow> client \<times> string option" where
  "renderTable env reservations st =
     (let st1 = st\<lparr>tableRows := []\<rparr>;
          placeholder = (st1\<lparr>tableRows := [placeholder_row]\<rparr>, None)
      in case reservations of
           JsonArray rs \<Rightarrow>
             if length rs = 0 then placeholder
             else (st1\<lparr>tableRows := map (renderRow env) (sort_cmp compareIds rs)\<rparr>, None)
         | JsonObject ob \<Rightarrow>
             if get_prop ob ''length'' = JNum 0 then placeholder
             else (st1, Some ''reservations.sort is not a function'')
         | JsonValue v \<Rightarrow>
             (case v of
                JNull \<Rightarrow> (st1, Some (nullReadMessage env))
              | JUndefined \<Rightarrow> (st1, Some (nullReadMessage env))
              | JStr s \<Rightarrow>
                  if length s = 0 then placeholder
                  else (st1, Some ''reservations.sort is not a function'')
              | _ \<Rightarrow> (st1, Some ''reservations.sort is not a function'')))"

subsection \<open>Listing\<close>

definition hex_digit :: "nat \<Rightarrow> char" where
  "hex_digit d = ''0123456789ABCDEF'' ! d"

definition percent :: "nat \<Rightarrow> string" where
  "percent b = [CHR ''%'', hex_digit (b div 16), hex_digit (b mod 16)]"

definition uri_unreserved :: "char \<Rightarrow> bool" where
  "uri_unreserved c =
     (let n = (of_char c :: nat)
      in (65 \<le> n \<and> n \<le> 90) \<or> (97 \<le> n \<and> n \<le> 122) \<or> (48 \<le> n \<and> n \<le> 57)
         \<or> c \<in> set ''-_.!~*()'' \<or> c = apostrophe)"

text \<open>\<open>encodeURIComponent\<close>: the UTF-8 bytes of every other code unit, percent-encoded.\<close>

definition encodeURIComponent :: "string \<Rightarrow> string" where
  "encodeURIComponent s =
     concat (map (\<lambda>c. let n = (of_char c :: nat)
                        in if uri_unreserved c then [c]
                           else if n < 128 then percent n
                           else percent (192 + n div 64) @ percent (128 + n mod 64)) s)"

definition load_failed :: "client \<Rightarrow> client" where
  "load_failed st =
     showMessage ''Failed to load reservations. Make sure the backend server is running.'' ''error'' st"

text \<open>
  \<open>loadReservations\<close>, given what its \<open>fetch\<close> settles to.  The status of the response
  is never looked at.
\<close>

definition loadReservations :: "env \<Rightarrow> fetch_outcome \<Rightarrow> client \<Rightarrow> client" where
  "loadReservations env outcome st =
     (let searchQuery = trim (inputs st ''searchInput'');
          format = inputs st ''responseFormat'';
          url = API_BASE @ ''?format='' @ format
                @ (if searchQuery \<noteq> [] then ''&q='' @ encodeURIComponent searchQuery else []);
          st1 = st\<lparr>log := log st @ [Fetch ''GET'' url [] []]\<rparr>
      in case outcome of
           Rejected message \<Rightarrow> load_failed st1
         | Responded r \<Rightarrow>
             if format = ''xml'' then
               let xmlDoc = parseFromString (body r);
                   reservations = map readReservation (doc_getElementsByTagName xmlDoc ''reservation'')
               in (case renderTable env (JsonArray reservations) st1 of
                     (st2, None) \<Rightarrow> st2
                   | (st2, Some message) \<Rightarrow> load_failed st2)
             else
               (case json_body r of
                  Inl message \<Rightarrow> load_failed st1
                | Inr reservations \<Rightarrow>
                    (case renderTable env reservations st1 of
                       (st2, None) \<Rightarrow> st2
                     | (st2, Some message) \<Rightarrow> load_failed st2)))"

subsection \<open>Reset, submit, edit, delete\<close>

definition formInputs :: "string list" where
  "formInputs = [''guest_name'', ''email'', ''phone'', ''street_address'', ''municipality'', ''region'',
     ''country'', ''resort_name'', ''checkin_date'', ''checkout_date'', ''guests'', ''payment_gateway'']"

text \<open>
  \<open>resetForms\<close>.  The two forms hold the twelve inputs read by \<open>getFormData\<close>; their
  \<open>reset()\<close> restores the page's default values.  The \<open>min\<close> attribute of the
  check-in input is not part of the state.
\<close>

definition resetForms :: "env \<Rightarrow> client \<Rightarrow> client" where
  "resetForms env st =
     st\<lparr> inputs := (\<lambda>k. if k = ''country'' then ''Philippines''
                          else if k \<in> set formInputs then formDefaults env k
                          else inputs st k),
         editMode := False,
         currentEditId := None,
         cancelEditDisplay := ''none'',
         submitJsonText := [CHR 0xF0, CHR 0x9F, CHR 0x93, CHR 0xA4] @ '' Submit as JSON'',
         submitXmlText := [CHR 0xF0, CHR 0x9F, CHR 0x93, CHR 0x84] @ '' Submit as XML'' \<rparr>"

definition cancelEdit :: "env \<Rightarrow> client \<Rightarrow> client" where
  "cancelEdit env st = showMessage ([CHR 0xF0, CHR 0x9F, CHR 0x94, CHR 0x84] @ '' Edit cancelled'') ''info'' (resetForms env st)"

text \<open>The text of \<open>${currentEditId}\<close> in a template.\<close>

definition idText :: "string option \<Rightarrow> string" where
  "idText i = (case i of None \<Rightarrow> ''null'' | Some s \<Rightarrow> s)"

definition submit_failed :: "string \<Rightarrow> client \<Rightarrow> client" where
  "submit_failed message st =
     showMessage (cross_mark @ '' Failed to '' @ (if editMode st then ''update'' else ''create'')
                    @ '' reservation: '' @ message) ''error'' st"

text \<open>
  \<open>submitReservation(format)\<close>, given what its own \<open>fetch\<close> settles to and what the
  \<open>fetch\<close> of the listing refresh settles to.
\<close>

definition submitReservation :: "env \<Rightarrow> string \<Rightarrow> fetch_outcome \<Rightarrow> fetch_outcome \<Rightarrow> client \<Rightarrow> client" where
  "submitReservation env format outcome listing st =
     (case validateForms env (inputs st) of (valid, shown) \<Rightarrow>
        let st0 = st\<lparr>log := log st @ shown\<rparr>
        in if \<not> valid then st0
           else
             let formData = getFormData (inputs st0);
                 method = (if editMode st0 then ''PUT'' else ''POST'');
                 contentType = (if format = ''xml'' then ''application/xml'' else ''application/json'');
                 requestBody = (if format = ''xml'' then xmlBody formData else stringify env formData);
                 url = (if format = ''xml''
                        then (if editMode st0 then API_BASE @ ''/'' @ idText (currentEditId st0) @ ''?format=xml''
                              else API_BASE @ ''?format=xml'')
                        else (if editMode st0 then API_BASE @ ''/'' @ idText (currentEditId st0)
                              else API_BASE));
                 st1 = st0\<lparr>log := log st0 @ [Fetch method url contentType requestBody]\<rparr>
             in case outcome of
                  Rejected message \<Rightarrow> submit_failed message st1
                | Responded r \<Rightarrow>
                    if \<not> ok r
                    then submit_failed (''HTTP '' @ num_toString (int (status r)) @ '': '' @ body r) st1
                    else
                      let successMessage =
                            (if editMode st1
                             then check_mark @ '' Reservation #'' @ idText (currentEditId st1) @ '' updated successfully!''
                             else check_mark @ '' Reservation created successfully!'')
                      in loadReservations env listing (resetForms env (showMessage successMessage ''success'' st1)))"

text \<open>Member read \<open>v.k\<close> on a parsed JSON value; on \<open>null\<close> it throws.\<close>

definition member :: "env \<Rightarrow> json \<Rightarrow> string \<Rightarrow> string + jsval" where
  "member env v k =
     (case v of
        JsonObject ob \<Rightarrow> Inr (get_prop ob k)
      | JsonArray rs \<Rightarrow> Inr JUndefined
      | JsonValue JNull \<Rightarrow> Inl (nullReadMessage env)
      | JsonValue JUndefined \<Rightarrow> Inl (nullReadMessage env)
      | JsonValue _ \<Rightarrow> Inr JUndefined)"

definition edit_failed :: "string \<Rightarrow> client \<Rightarrow> client" where
  "edit_failed rid st =
     showMessage (cross_mark @ '' Failed to load reservation #'' @ rid @ '' for editing'') ''error'' st"

text \<open>The value an input is given from a member of the fetched reservation.\<close>

definition fill :: "json \<Rightarrow> string \<Rightarrow> jsval \<Rightarrow> string" where
  "fill reservation k dflt =
     (case reservation of
        JsonObject ob \<Rightarrow> toString (js_or (get_prop ob k) dflt)
      | _ \<Rightarrow> toString (js_or JUndefined dflt))"

definition editReservation :: "env \<Rightarrow> string \<Rightarrow> fetch_outcome \<Rightarrow> client \<Rightarrow> client" where
  "editReservation env rid outcome st =
     (let st1 = st\<lparr>log := log st @ [Fetch ''GET'' (API_BASE @ ''/'' @ rid) [] []]\<rparr>
      in case outcome of
           Rejected message \<Rightarrow> edit_failed rid st1
         | Responded r \<Rightarrow>
             if \<not> ok r then edit_failed rid st1
             else
               (case json_body r of
                  Inl message \<Rightarrow> edit_failed rid st1
                | Inr reservation \<Rightarrow>
                    (case member env reservation ''guest_name'' of
                       Inl message \<Rightarrow> edit_failed rid st1
                     | Inr _ \<Rightarrow>
                         showMessage ([CHR 0xE2, CHR 0x9C, CHR 0x8F] @ [CHR 0xEF, CHR 0xB8, CHR 0x8F] @ '' Editing reservation #'' @ rid @ ''. Make your changes and click Update.'') ''info''
                           (st1\<lparr> inputs := (\<lambda>k. if k = ''guests'' then fill reservation k (JNum 1)
                                                  else if k \<in> set formInputs then fill reservation k (JStr [])
                                                  else inputs st1 k),
                                 editMode := True,
                                 currentEditId := Some rid,
                                 cancelEditDisplay := ''inline-block'',
                                 submitJsonText := [CHR 0xF0, CHR 0x9F, CHR 0x92, CHR 0xBE] @ '' Update #'' @ rid @ '' as JSON'',
                                 submitXmlText := [CHR 0xF0, CHR 0x9F, CHR 0x93, CHR 0x84] @ '' Update #'' @ rid @ '' as XML'' \<rparr>))))"

definition delete_failed :: "string \<Rightarrow> string \<Rightarrow> client \<Rightarrow> client" where
  "delete_failed rid message st =
     showMessage (cross_mark @ '' Failed to delete reservation #'' @ rid @ '': '' @ message) ''error'' st"

text \<open>
  \<open>deleteReservation(id)\<close>, given the answer to the \<open>confirm\<close> dialog, what the
  \<open>DELETE\<close> request settles to and what the listing refresh settles to.
\<close>

definition deleteReservation :: "env \<Rightarrow> string \<Rightarrow> bool \<Rightarrow> fetch_outcome \<Rightarrow> fetch_outcome \<Rightarrow> client \<Rightarrow> client" where
  "deleteReservation env rid confirmed outcome listing st =
     (let st0 = st\<lparr>log := log st @ [Confirm (''Are you sure you want to delete reservation #'' @ rid @ ''?'' @ nl @ ''This action cannot be undone.'')]\<rparr>
      in if \<not> confirmed then st0
         else
           let st1 = st0\<lparr>log := log st0 @ [Fetch ''DELETE'' (API_BASE @ ''/'' @ rid) [] []]\<rparr>
           in case outcome of
                Rejected message \<Rightarrow> delete_failed rid message st1
              | Responded r \<Rightarrow>
                  if ok r
                  then loadReservations env listing
                         (showMessage ([CHR 0xE2, CHR 0x9C, CHR 0x85] @ '' Reservation #'' @ rid @ '' deleted successfully'') ''success'' st1)
                  else
                    (case json_body r of
                       Inl message \<Rightarrow> delete_failed rid message st1
                     | Inr errorData \<Rightarrow>
                         (case member env errorData ''error'' of
                            Inl message \<Rightarrow> delete_failed rid message st1
                          | Inr e \<Rightarrow>
                              delete_failed rid
                                (toString (js_or e (JStr (''HTTP '' @ num_toString (int (status r)))))) st1)))"

text \<open>The state of a freshly loaded page: the two top-level \<open>let\<close>s, the page's inputs.\<close>

definition initial :: "dom_values \<Rightarrow> client" where
  "initial page =
     \<lparr> editMode = False, currentEditId = None, inputs = page, tableRows = [],
       cancelEditDisplay = [], submitJsonText = [], submitXmlText = [], log = [] \<rparr>"

section \<open>Notions used in the statements\<close>

text \<open>A text that begins or ends with whitespace.\<close>

definition surrounded :: "string \<Rightarrow> bool" where
  "surrounded v = (v \<noteq> [] \<and> (js_space (hd v) \<or> js_space (last v)))"

text \<open>The two session variables agree.\<close>

definition consistent :: "client \<Rightarrow> bool" where
  "consistent st = (editMode st = (currentEditId st \<noteq> None))"

fun is_fetch :: "effect \<Rightarrow> bool" where
  "is_fetch (Fetch method url contentType content) = True"
| "is_fetch _ = False"

fun is_message :: "effect \<Rightarrow> bool" where
  "is_message (ShowMessage message type) = True"
| "is_message _ = False"

section \<open>Sessions\<close>

text \<open>
  The states a session can be in: the freshly loaded page, and from any state the state
  after the user changes the inputs or after one of the handlers has run to completion,
  whatever the network answered.
\<close>

inductive reachable :: "env \<Rightarrow> dom_values \<Rightarrow> client \<Rightarrow> bool" for env page where
  start: "reachable env page (initial page)"
| load: "reachable env page st \<Longrightarrow> reachable env page (loadReservations env outcome st)"
| typing: "reachable env page st \<Longrightarrow> reachable env page (st\<lparr>inputs := values\<rparr>)"
| submit: "reachable env page st \<Longrightarrow> reachable env page (submitReservation env format outcome listing st)"
| cancel: "reachable env page st \<Longrightarrow> reachable env page (cancelEdit env st)"
| edit: "reachable env page st \<Longrightarrow> reachable env page (editReservation env rid outcome st)"
| delete: "reachable env page st \<Longrightarrow> reachable env page (deleteReservation env rid confirmed outcome listing st)"

section \<open>Sample data\<close>

text \<open>
  A browser whose \<open>Date\<close> knows the three days used in the examples (time values at
  midnight UTC), on 25 December 2024.
\<close>

definition sample_dates :: "string \<Rightarrow> int option" where
  "sample_dates = map_of [(''2024-12-25'', 1735084800000), (''2024-12-26'', 1735171200000),
                          (''2024-12-28'', 1735344000000)]"

definition no_defaults :: "string \<Rightarrow> string" where
  "no_defaults k = []"

definition no_stringify :: "formData \<Rightarrow> string" where
  "no_stringify fd = []"

definition sample_env :: env where
  "sample_env = \<lparr> parseDate = sample_dates, tomorrow = 1735171200000, localeDate = toString,
                   stringify = no_stringify, formDefaults = no_defaults,
                   nullReadMessage = ''Cannot read properties of null'' \<rparr>"

definition sample_form :: dom_values where
  "sample_form = form_of [(''guest_name'', ''Ana Cruz''), (''email'', ''ana@example.com''),
     (''resort_name'', ''Boracay''), (''checkin_date'', ''2024-12-25''),
     (''checkout_date'', ''2024-12-28''), (''guests'', ''2''), (''responseFormat'', ''xml'')]"

definition late_form :: dom_values where
  "late_form = form_of [(''guest_name'', ''Ana Cruz''), (''email'', ''ana@example.com''),
     (''resort_name'', ''Boracay''), (''checkin_date'', ''2024-12-28''),
     (''checkout_date'', ''2024-12-25''), (''guests'', ''2'')]"

definition nameless_form :: dom_values where
  "nameless_form = form_of [(''guest_name'', ''  ''), (''email'', ''ana@example.com'')]"

definition offline :: fetch_outcome where
  "offline = Rejected ''Failed to fetch''"

text \<open>A gateway's answer to a request it could not pass on: an HTML page, status 502.\<close>

definition bad_gateway :: response where
  "bad_gateway = \<lparr> status = 502, body = ''<html>Bad Gateway</html>'',
                    json_body = Inl ''Unexpected token < in JSON at position 0'' \<rparr>"

text \<open>A server's own error answer: status 500 and a JSON object with an \<open>error\<close> member.\<close>

definition server_error :: response where
  "server_error = \<lparr> status = 500, body = ''{'' @ dq @ ''error'' @ dq @ '': '' @ dq @ ''boom'' @ dq @ ''}'',
                     json_body = Inr (JsonObject [(''error'', JStr ''boom'')]) \<rparr>"

definition plain_error :: response where
  "plain_error = \<lparr> status = 500, body = ''Internal Server Error'',
                    json_body = Inl ''Unexpected token I in JSON at position 0'' \<rparr>"

definition listed :: client where
  "listed = (initial sample_form)\<lparr>tableRows := [''<td>#7</td>'']\<rparr>"

text \<open>The answer to the request for reservation 7.\<close>

definition found :: response where
  "found = \<lparr> status = 200,
              body = ''{'' @ dq @ ''id'' @ dq @ '': 7, '' @ dq @ ''guest_name'' @ dq @ '': '' @ dq @ ''Ana Cruz'' @ dq @ ''}'',
              json_body = Inr (JsonObject [(''id'', JNum 7), (''guest_name'', JStr ''Ana Cruz'')]) \<rparr>"

text \<open>The page of \<open>listed\<close> with the response format switched to JSON.\<close>

definition listed_json :: client where
  "listed_json = listed\<lparr>inputs := form_of [(''responseFormat'', ''json'')]\<rparr>"

text \<open>The four records of the sorting example, by their \<open>id\<close> members.\<close>

definition unsorted :: "jsobj list" where
  "unsorted = [[(''id'', JNum 3)], [(''id'', JStr ''10'')], [(''id'', JNull)], [(''id'', JNum 7)]]"

fun id_of :: "jsobj \<Rightarrow> jsval" where
  "id_of r = get_prop r ''id''"

definition descending :: "jsobj \<Rightarrow> jsobj \<Rightarrow> bool" where
  "descending a b = (idNum b \<le> idNum a)"

definition same_id :: "int \<Rightarrow> jsobj \<Rightarrow> bool" where
  "same_id k r = (idNum r = k)"


subsection \<open>Records for the round trip\<close>

text \<open>The printable ASCII characters, blank to tilde.\<close>

definition printable :: "char \<Rightarrow> bool" where
  "printable c = (32 \<le> (of_char c :: nat) \<and> (of_char c :: nat) \<le> 126)"

definition string_fields :: "formData \<Rightarrow> string list" where
  "string_fields fd =
     [guest_name fd, email fd, phone fd, street_address fd, municipality fd, region fd, country fd,
      resort_name fd, checkin_date fd, checkout_date fd, payment_gateway fd]"

text \<open>What \<open>loadReservations\<close> builds from the XML form of a record.\<close>

definition roundTrip :: "formData \<Rightarrow> jsobj list" where
  "roundTrip fd = map readReservation (doc_getElementsByTagName (parseFromString (xmlBody fd)) ''reservation'')"

text \<open>The record as the table would hold it: no identifier, no creation time.\<close>

definition as_listed :: "formData \<Rightarrow> jsobj" where
  "as_listed fd =
     [(''id'', JStr []),
      (''guest_name'', JStr (guest_name fd)),
      (''email'', JStr (email fd)),
      (''phone'', JStr (phone fd)),
      (''street_address'', JStr (street_address fd)),
      (''municipality'', JStr (municipality fd)),
      (''region'', JStr (region fd)),
      (''country'', JStr (country fd)),
      (''resort_name'', JStr (resort_name fd)),
      (''checkin_date'', JStr (checkin_date fd)),
      (''checkout_date'', JStr (checkout_date fd)),
      (''guests'', guests fd),
      (''payment_gateway'', JStr (payment_gateway fd)),
      (''created_at'', JStr [])]"

definition sample_record :: formData where
  "sample_record =
     \<lparr> guest_name = ''Ana & <Cruz>'', email = ''ana@example.com'', phone = [], street_address = [],
       municipality = [], region = [], country = ''Philippines'', resort_name = ''Boracay'',
       checkin_date = ''2024-12-25'', checkout_date = ''2024-12-28'', guests = JNum 2,
       payment_gateway = ''GCash'' \<rparr>"

text \<open>The same booking for \<open>10^21\<close> guests, which the guests input yields for a 1 and 21 zeros.\<close>

definition big_party :: formData where
  "big_party = sample_record\<lparr>guests := JNum 1000000000000000000000\<rparr>"

text \<open>
  The shape of the tree read from the request body: a name is a well-formed tag name; a
  value is the single text child of its element, or no child when it is empty; a field
  contributes the indentation text and its element.
\<close>

definition tag_name :: "string \<Rightarrow> bool" where
  "tag_name t = (t \<noteq> [] \<and> name_start (hd t) \<and> list_all name_char (tl t))"

definition text_kids :: "string \<Rightarrow> xml_node list" where
  "text_kids v = (if v = [] then [] else [Text v])"

definition field_nodes :: "string \<times> string \<Rightarrow> xml_node list" where
  "field_nodes f = [Text (nl @ ''    ''), Element (fst f) [] (text_kids (snd f))]"

definition body_tree :: "formData \<Rightarrow> xml_node" where
  "body_tree fd = Element ''reservation'' [] (concat (map field_nodes (xml_fields fd)) @ [Text nl])"

text \<open>A record whose texts, the guest count as printed included, are printable ASCII.\<close>

definition sendable :: "formData \<Rightarrow> bool" where
  "sendable fd = (list_all (list_all printable) (string_fields fd) \<and> list_all printable (toString (guests fd)))"

text \<open>A text of decimal digits.\<close>

definition digit_text :: "string \<Rightarrow> bool" where
  "digit_text s = (\<forall>c \<in> set s. \<exists>d < 10. c = digit_char d)"

section \<open>Escaping is total\<close>

lemma replaceAll_Nil: "replaceAll c r [] = []" by (simp add: replaceAll_def)
lemma replaceAll_Cons: "replaceAll c r (x # xs) = (if x = c then r else [x]) @ replaceAll c r xs" by (simp add: replaceAll_def)
lemma replaceAll_append: "replaceAll c r (xs @ ys) = replaceAll c r xs @ replaceAll c r ys" by (simp add: replaceAll_def)

lemma escapeXml_entities: "escapeXml s = concat (map xml_entity s)"
proof (induction s)
  case Nil show ?case by (simp add: escapeXml_def)
next
  case (Cons c s)
  have "replaceAll apostrophe ''&apos;''
            (replaceAll (CHR 0x22) ''&quot;''
              (replaceAll (CHR ''>'') ''&gt;''
                (replaceAll (CHR ''<'') ''&lt;''
                  (replaceAll (CHR ''&'') ''&amp;'' t)))) = concat (map xml_entity t)" for t
    by (induction t) (simp_all add: replaceAll_Nil replaceAll_Cons replaceAll_append xml_entity_def)
  then show ?case by (simp add: escapeXml_def)
qed

lemma escapeXml_Nil: "escapeXml [] = []" by (simp add: escapeXml_def)
lemma escapeXml_Cons: "escapeXml (c # s) = xml_entity c @ escapeXml s" by (simp add: escapeXml_entities)










section \<open>The form record\<close>

lemma trim_decomp:
  "\<exists>a b. s = a @ trim s @ b \<and> list_all js_space a \<and> list_all js_space b"
proof -
  define t where "t = dropWhile js_space s"
  have s: "s = takeWhile js_space s @ t" by (simp add: t_def)
  have "rev (takeWhile js_space (rev t) @ dropWhile js_space (rev t)) = rev (rev t)"
    by (simp only: takeWhile_dropWhile_id)
  then have "rev (dropWhile js_space (rev t)) @ rev (takeWhile js_space (rev t)) = t"
    by (simp only: rev_append rev_rev_ident)
  then have t: "t = trim s @ rev (takeWhile js_space (rev t))"
    by (simp add: trim_def t_def)
  have a: "list_all js_space (takeWhile js_space s)"
    by (auto simp add: list_all_iff dest: set_takeWhileD)
  have b: "list_all js_space (rev (takeWhile js_space (rev t)))"
    by (auto simp add: list_all_iff dest: set_takeWhileD)
  from s t have "s = takeWhile js_space s @ trim s @ rev (takeWhile js_space (rev t))" by simp
  with a b show ?thesis by blast
qed

lemma trim_not_surrounded: "\<not> surrounded (trim s)"
proof (cases "trim s = []")
  case True then show ?thesis by (simp add: surrounded_def)
next
  case False
  define t where "t = dropWhile js_space s"
  define u where "u = dropWhile js_space (rev t)"
  have tr: "trim s = rev u" by (simp add: trim_def t_def u_def)
  with False have u: "u \<noteq> []" by simp
  then have "\<not> js_space (hd u)" unfolding u_def by (rule hd_dropWhile)
  then have l: "\<not> js_space (last (trim s))" by (simp add: tr last_rev)
  from u have t: "t \<noteq> []" by (auto simp add: u_def)
  then have ht: "\<not> js_space (hd t)" unfolding t_def by (rule hd_dropWhile)
  have "rev t = takeWhile js_space (rev t) @ u" by (simp add: u_def)
  with u have "last (rev t) = last u" by (metis last_appendR)
  then have "hd (trim s) = hd t" by (simp add: tr hd_rev last_rev)
  with ht l show ?thesis by (simp add: surrounded_def)
qed

text \<open>
  Claim C5, as amended.  \<open>getFormData\<close> is total: every form yields a record.  The seven
  free-text fields (guest name, email, phone, street address, municipality, region,
  country) are the input values with the surrounding whitespace removed: what was removed
  is whitespace only, and the result neither begins nor ends with whitespace.  The resort
  name, the two dates and the payment gateway are the input values as they are.  The guest
  count is the integer read by \<open>parseInt\<close> when that is not 0, and 1 when nothing can be
  read.
\<close>

theorem getFormData_fields:
  "(\<forall>k v. (k, v) \<in> set [(''guest_name'', guest_name (getFormData form)),
                         (''email'', email (getFormData form)),
                         (''phone'', phone (getFormData form)),
                         (''street_address'', street_address (getFormData form)),
                         (''municipality'', municipality (getFormData form)),
                         (''region'', region (getFormData form)),
                         (''country'', country (getFormData form))]
      \<longrightarrow> \<not> surrounded v \<and> (\<exists>a b. form k = a @ v @ b \<and> list_all js_space a \<and> list_all js_space b))
   \<and> resort_name (getFormData form) = form ''resort_name''
   \<and> checkin_date (getFormData form) = form ''checkin_date''
   \<and> checkout_date (getFormData form) = form ''checkout_date''
   \<and> payment_gateway (getFormData form) = form ''payment_gateway''
   \<and> (parseInt_str (form ''guests'') = None \<longrightarrow> guests (getFormData form) = JNum 1)
   \<and> (\<forall>n. parseInt_str (form ''guests'') = Some n \<and> n \<noteq> 0 \<longrightarrow> guests (getFormData form) = JNum n)"
  by (auto simp add: getFormData_def trim_not_surrounded trim_decomp js_or_def parseInt_def
      split: option.splits)

lemmas parse_eval = parseInt_def parseInt_str_def trimStart_def js_space_def is_digit_in_def digit_val_def digits_value_def

text \<open>
  The theorem at a form whose guest name carries blanks and whose guest count is 3.
\<close>

theorem getFormData_fields_witness:
  "guest_name (getFormData (form_of [(''guest_name'', ''  Ana Cruz ''), (''guests'', ''3'')])) = ''Ana Cruz''
   \<and> guests (getFormData (form_of [(''guest_name'', ''  Ana Cruz ''), (''guests'', ''3'')])) = JNum 3"
  using getFormData_fields [of "form_of [(''guest_name'', ''  Ana Cruz ''), (''guests'', ''3'')]"]
  by (simp add: getFormData_def form_of_def trim_def js_or_def parse_eval)

text \<open>
  Claim C5 as stated fails: a resort name entered with blanks keeps them, and a guest
  count of 0, which \<open>parseInt\<close> reads as 0, becomes 1.
\<close>

theorem getFormData_untrimmed_counterexample:
  "surrounded (resort_name (getFormData (form_of [(''resort_name'', '' Boracay '')])))
   \<and> parseInt (JStr ''0'') = JNum 0
   \<and> guests (getFormData (form_of [(''guests'', ''0'')])) = JNum 1"
  by (simp add: getFormData_def form_of_def surrounded_def js_or_def parse_eval)

section \<open>Validation, submission, deletion and the session state\<close>

lemma trim_Nil: "trim [] = []" by (simp add: trim_def)


lemma first_missing_None: "first_missing form ks = None \<longleftrightarrow> (\<forall>k \<in> set ks. trim (form k) \<noteq> [])"
  by (induction ks) auto

lemma first_missing_head: "trim (form k) = [] \<Longrightarrow> first_missing form (k # ks) = Some k"
  by simp


lemmas sample_eval = sample_env_def sample_dates_def sample_form_def late_form_def nameless_form_def
  form_of_def initial_def offline_def bad_gateway_def server_error_def plain_error_def listed_def
  no_defaults_def



lemma required_present:
  assumes "\<forall>k \<in> set requiredFields. trim (form k) \<noteq> []"
  shows "first_missing form requiredFields = None" "form ''checkin_date'' \<noteq> []" "form ''checkout_date'' \<noteq> []"
proof -
  show "first_missing form requiredFields = None" using assms by (simp add: first_missing_None)
  from assms have "trim (form ''checkin_date'') \<noteq> []" "trim (form ''checkout_date'') \<noteq> []"
    by (simp_all add: requiredFields_def)
  then show "form ''checkin_date'' \<noteq> []" "form ''checkout_date'' \<noteq> []"
    by (auto simp add: trim_Nil)
qed

lemma phone_check_warns: "ShowMessage m ''error'' \<notin> set (phone_check form)"
  by (simp add: phone_check_def Let_def)

text \<open>
  Claim C2.  For a form with every required field present and an email of the accepted
  shape, \<open>validateForms\<close> succeeds exactly when the comparison
  \<open>checkoutDate <= checkinDate\<close> is false; when it is true, the only message is the
  date-order error and the verdict is failure; when it is false, no date-order error is
  shown, and a check-in before tomorrow adds a warning to a successful verdict.  On two
  valid dates the comparison is that of their time values.
\<close>

theorem date_order_validation:
  assumes "\<forall>k \<in> set requiredFields. trim (form k) \<noteq> []" and "emailRegex_test (form ''email'')"
  shows "(fst (validateForms env form)
            \<longleftrightarrow> \<not> time_le (parseDate env (form ''checkout_date'')) (parseDate env (form ''checkin_date'')))
       \<and> (time_le (parseDate env (form ''checkout_date'')) (parseDate env (form ''checkin_date'')) \<longrightarrow>
            validateForms env form = (False, [ShowMessage date_order_message ''error'', Focus ''checkout_date'']))
       \<and> (\<not> time_le (parseDate env (form ''checkout_date'')) (parseDate env (form ''checkin_date'')) \<longrightarrow>
            ShowMessage date_order_message ''error'' \<notin> set (snd (validateForms env form)))
       \<and> (\<not> time_le (parseDate env (form ''checkout_date'')) (parseDate env (form ''checkin_date''))
            \<and> time_lt (parseDate env (form ''checkin_date'')) (Some (tomorrow env)) \<longrightarrow>
            fst (validateForms env form)
            \<and> ShowMessage tomorrow_message ''warning'' \<in> set (snd (validateForms env form)))
       \<and> (\<forall>a b. parseDate env (form ''checkin_date'') = Some a \<and> parseDate env (form ''checkout_date'') = Some b \<longrightarrow>
            (time_le (parseDate env (form ''checkout_date'')) (parseDate env (form ''checkin_date'')) \<longleftrightarrow> b \<le> a))"
proof -
  note r = required_present [OF assms(1)]
  have v: "validateForms env form =
     (if time_le (parseDate env (form ''checkout_date'')) (parseDate env (form ''checkin_date''))
      then (False, [ShowMessage date_order_message ''error'', Focus ''checkout_date''])
      else if time_lt (parseDate env (form ''checkin_date'')) (Some (tomorrow env))
      then (True, ShowMessage tomorrow_message ''warning'' # phone_check form)
      else (True, phone_check form))"
    by (simp add: validateForms_def r assms(2) Let_def)
  show ?thesis
    by (simp add: v phone_check_warns time_le_def)
qed

text \<open>
  The theorem at a three-night stay from 25 December, validated on that day (success, with
  the warning), and at the same stay with the two dates exchanged (the date-order error).
\<close>

theorem date_order_validation_witness:
  "first_missing sample_form requiredFields = None
   \<and> emailRegex_test (sample_form ''email'')
   \<and> validateForms sample_env sample_form = (True, [ShowMessage tomorrow_message ''warning''])
   \<and> validateForms sample_env late_form = (False, [ShowMessage date_order_message ''error'', Focus ''checkout_date''])"
proof -
  have a: "\<forall>k \<in> set requiredFields. trim (sample_form k) \<noteq> []"
    by (simp add: requiredFields_def sample_eval trim_def js_space_def)
  have b: "emailRegex_test (sample_form ''email'')"
    by (simp add: sample_eval emailRegex_test_def email_char_def js_space_def)
  have c: "\<forall>k \<in> set requiredFields. trim (late_form k) \<noteq> []"
    by (simp add: requiredFields_def sample_eval trim_def js_space_def)
  have d: "emailRegex_test (late_form ''email'')"
    by (simp add: sample_eval emailRegex_test_def email_char_def js_space_def)
  have p: "phone_check sample_form = []"
    by (simp add: phone_check_def sample_eval)
  have e: "validateForms sample_env sample_form = (True, [ShowMessage tomorrow_message ''warning''])"
    using date_order_validation [OF a b, of sample_env] p
    by (simp add: validateForms_def Let_def sample_eval time_le_def time_lt_def requiredFields_def trim_def js_space_def
        emailRegex_test_def email_char_def)
  have f: "validateForms sample_env late_form = (False, [ShowMessage date_order_message ''error'', Focus ''checkout_date''])"
  proof -
    have "time_le (parseDate sample_env (late_form ''checkout_date'')) (parseDate sample_env (late_form ''checkin_date''))"
      by (simp add: sample_eval time_le_def)
    with date_order_validation [OF c d, of sample_env] show ?thesis by blast
  qed
  from a have a': "first_missing sample_form requiredFields = None"
    by (simp add: first_missing_None)
  from a' b e f show ?thesis by blast
qed


lemma loadReservations_session:
  "editMode (loadReservations env outcome st) = editMode st"
  "currentEditId (loadReservations env outcome st) = currentEditId st"
  by (auto simp add: loadReservations_def renderTable_def load_failed_def showMessage_def Let_def
      split: fetch_outcome.splits sum.splits json.splits jsval.splits prod.splits option.splits)

text \<open>
  What holds of the delete flow.  A declined confirmation leaves only the dialog in the log:
  no \<open>fetch\<close> is issued.  After a response that is not 2xx whose body parses as JSON and
  is not \<open>null\<close>, the failure message carries the \<open>error\<close> member of the parsed value
  when that member is truthy, and the text \<open>HTTP status\<close> otherwise, as for an object
  without the member, an array, a string or a number.
\<close>

lemma delete_fallback:
  "deleteReservation env rid False outcome listing st
     = st\<lparr>log := log st @ [Confirm (''Are you sure you want to delete reservation #'' @ rid @ ''?'' @ nl
                                      @ ''This action cannot be undone.'')]\<rparr>
   \<and> filter is_fetch (log (deleteReservation env rid False outcome listing st)) = filter is_fetch (log st)
   \<and> (\<not> ok r \<and> json_body r = Inr v \<and> member env v ''error'' = Inr e \<longrightarrow>
        last (log (deleteReservation env rid True (Responded r) listing st))
          = ShowMessage (cross_mark @ '' Failed to delete reservation #'' @ rid @ '': ''
                           @ (if truthy e then toString e else ''HTTP '' @ num_toString (int (status r))))
              ''error'')
   \<and> member env (JsonObject ob) ''error'' = Inr (get_prop ob ''error'')
   \<and> member env (JsonArray rs) ''error'' = Inr JUndefined
   \<and> member env (JsonValue (JStr t)) ''error'' = Inr JUndefined
   \<and> member env (JsonValue (JNum n)) ''error'' = Inr JUndefined
   \<and> member env (JsonValue (JBool b)) ''error'' = Inr JUndefined"
  by (simp add: deleteReservation_def delete_failed_def showMessage_def member_def js_or_def Let_def)

lemma delete_fallback_example:
  "last (log (deleteReservation sample_env ''42'' True (Responded server_error) offline listed))
       = ShowMessage (cross_mark @ '' Failed to delete reservation #42: boom'') ''error''
   \<and> log (deleteReservation sample_env ''42'' False (Responded server_error) offline listed)
       = [Confirm (''Are you sure you want to delete reservation #42?'' @ nl @ ''This action cannot be undone.'')]"
  using delete_fallback [of sample_env "''42''" "Responded server_error" offline listed server_error
                           "JsonObject [(''error'', JStr ''boom'')]" "JStr ''boom''"]
  by (simp add: ok_def server_error_def get_prop_def listed_def initial_def member_def)

text \<open>
  Claim C7 does not hold of the code.  A gateway answers the \<open>DELETE\<close> request with status
  502 and an HTML page.  \<open>response.json()\<close> rejects, the exception reaches the
  \<open>catch\<close> before \<open>errorData.error || `HTTP ${response.status}`\<close> is evaluated, and
  the message shown carries the text of the JSON syntax error, not \<open>HTTP 502\<close>.  The
  submit handler, given the same answer, reports \<open>HTTP 502\<close> with the body text.
\<close>

theorem delete_unparseable_body:
  "\<not> ok bad_gateway
   \<and> json_body bad_gateway = Inl ''Unexpected token < in JSON at position 0''
   \<and> last (log (deleteReservation sample_env ''42'' True (Responded bad_gateway) offline listed))
       = ShowMessage (cross_mark @ '' Failed to delete reservation #42: Unexpected token < in JSON at position 0'') ''error''
   \<and> last (log (deleteReservation sample_env ''42'' True (Responded bad_gateway) offline listed))
       \<noteq> ShowMessage (cross_mark @ '' Failed to delete reservation #42: HTTP 502'') ''error''
   \<and> last (log (submitReservation sample_env ''xml'' (Responded bad_gateway) offline (initial sample_form)))
       = ShowMessage (cross_mark @ '' Failed to create reservation: HTTP 502: <html>Bad Gateway</html>'') ''error''"
proof -
  have a: "\<not> ok bad_gateway" "json_body bad_gateway = Inl ''Unexpected token < in JSON at position 0''"
    by (simp_all add: ok_def bad_gateway_def)
  have b: "last (log (deleteReservation sample_env ''42'' True (Responded bad_gateway) offline listed))
       = ShowMessage (cross_mark @ '' Failed to delete reservation #42: Unexpected token < in JSON at position 0'') ''error''"
    by (simp add: deleteReservation_def delete_failed_def showMessage_def Let_def a)
  have c: "last (log (deleteReservation sample_env ''42'' True (Responded bad_gateway) offline listed))
       \<noteq> ShowMessage (cross_mark @ '' Failed to delete reservation #42: HTTP 502'') ''error''"
    by (simp add: b)
  have v: "validateForms sample_env (inputs (initial sample_form)) = (True, [ShowMessage tomorrow_message ''warning''])"
    by (simp add: validateForms_def Let_def sample_eval time_le_def time_lt_def requiredFields_def trim_def
        js_space_def emailRegex_test_def email_char_def phone_check_def)
  have n: "num_toString (int (status bad_gateway)) = ''502''"
    by (simp add: bad_gateway_def num_toString_def magnitude_toString_def nat_digits.simps digit_char_def)
  have d: "last (log (submitReservation sample_env ''xml'' (Responded bad_gateway) offline (initial sample_form)))
       = ShowMessage (cross_mark @ '' Failed to create reservation: HTTP 502: <html>Bad Gateway</html>'') ''error''"
    by (simp add: submitReservation_def v Let_def a submit_failed_def showMessage_def n)
       (simp add: initial_def bad_gateway_def)
  from a b c d show ?thesis by blast
qed


lemma resetForms_session:
  "editMode (resetForms env st) = False" "currentEditId (resetForms env st) = None"
  by (simp_all add: resetForms_def)

lemma cancelEdit_session:
  "editMode (cancelEdit env st) = False" "currentEditId (cancelEdit env st) = None"
  by (simp_all add: cancelEdit_def showMessage_def resetForms_def)

lemma submit_success_session:
  assumes "fst (validateForms env (inputs st))" and "ok r"
  shows "editMode (submitReservation env format (Responded r) listing st) = False"
    and "currentEditId (submitReservation env format (Responded r) listing st) = None"
  using assms
  by (auto simp add: submitReservation_def Let_def loadReservations_session resetForms_session
      split: prod.splits)

lemma consistent_submit:
  "consistent st \<Longrightarrow> consistent (submitReservation env format outcome listing st)"
  by (auto simp add: consistent_def submitReservation_def Let_def loadReservations_session resetForms_session
      submit_failed_def showMessage_def split: prod.splits fetch_outcome.splits)

lemma consistent_edit:
  "consistent st \<Longrightarrow> consistent (editReservation env rid outcome st)"
  by (auto simp add: consistent_def editReservation_def Let_def edit_failed_def showMessage_def
      split: fetch_outcome.splits sum.splits)

lemma consistent_delete:
  "consistent st \<Longrightarrow> consistent (deleteReservation env rid confirmed outcome listing st)"
  by (auto simp add: consistent_def deleteReservation_def Let_def delete_failed_def showMessage_def
      loadReservations_session split: fetch_outcome.splits sum.splits)

lemma reachable_consistent: "reachable env page st \<Longrightarrow> consistent st"
proof (induction rule: reachable.induct)
  case start
  show ?case by (simp add: consistent_def initial_def)
next
  case (load st outcome)
  then show ?case by (simp add: consistent_def loadReservations_session)
next
  case (typing st "values")
  then show ?case by (simp add: consistent_def)
next
  case (submit st format outcome listing)
  from submit.IH show ?case by (rule consistent_submit)
next
  case (cancel st)
  show ?case by (simp add: consistent_def cancelEdit_session)
next
  case (edit st rid outcome)
  from edit.IH show ?case by (rule consistent_edit)
next
  case (delete st rid confirmed outcome listing)
  from delete.IH show ?case by (rule consistent_delete)
qed

text \<open>
  Claim C9.  In every state of a session, \<open>editMode\<close> is true exactly when
  \<open>currentEditId\<close> is not \<open>null\<close>.  \<open>resetForms\<close>, \<open>cancelEdit\<close> and a submission
  that passes validation and is answered with a 2xx status leave \<open>editMode = false\<close> and
  \<open>currentEditId = null\<close>, which is also the state of the freshly loaded page.
\<close>

theorem session_state_consistent:
  assumes "reachable env page st"
  shows "editMode st = (currentEditId st \<noteq> None)
       \<and> editMode (resetForms env st) = False \<and> currentEditId (resetForms env st) = None
       \<and> editMode (cancelEdit env st) = False \<and> currentEditId (cancelEdit env st) = None
       \<and> (fst (validateForms env (inputs st)) \<and> ok r \<longrightarrow>
            editMode (submitReservation env format (Responded r) listing st) = False
          \<and> currentEditId (submitReservation env format (Responded r) listing st) = None)
       \<and> editMode (initial page) = False \<and> currentEditId (initial page) = None"
  using reachable_consistent [OF assms]
  by (simp add: consistent_def resetForms_session cancelEdit_session submit_success_session initial_def)

text \<open>
  The theorem at the state reached by editing reservation 7 right after the page is loaded.
\<close>

theorem session_state_consistent_witness:
  "reachable sample_env sample_form (editReservation sample_env ''7'' (Responded found) (initial sample_form))
   \<and> editMode (editReservation sample_env ''7'' (Responded found) (initial sample_form)) = True
   \<and> currentEditId (editReservation sample_env ''7'' (Responded found) (initial sample_form)) = Some ''7''
   \<and> editMode (resetForms sample_env (editReservation sample_env ''7'' (Responded found) (initial sample_form))) = False"
proof -
  have r: "reachable sample_env sample_form
             (editReservation sample_env ''7'' (Responded found) (initial sample_form))"
    by (intro reachable.edit reachable.start)
  have e: "currentEditId (editReservation sample_env ''7'' (Responded found) (initial sample_form)) = Some ''7''"
    by (simp add: editReservation_def Let_def found_def ok_def member_def showMessage_def)
  from session_state_consistent [OF r, of found "''xml''" offline] e r show ?thesis by simp
qed

section \<open>The order of the table\<close>

lemma mset_insert_cmp: "mset (insert_cmp cmp x ys) = add_mset x (mset ys)"
  by (induction ys) simp_all

lemma mset_sort_cmp: "mset (sort_cmp cmp xs) = mset xs"
  by (induction xs) (simp_all add: sort_cmp_def mset_insert_cmp)

lemma set_insert_cmp: "set (insert_cmp cmp x ys) = insert x (set ys)"
  by (induction ys) auto

lemma compareIds_le: "compareIds x y \<le> 0 \<longleftrightarrow> idNum y \<le> idNum x"
  by (simp add: compareIds_def Let_def)

lemma descending_iff: "descending a b \<longleftrightarrow> idNum b \<le> idNum a"
  by (simp add: descending_def)

lemma same_id_le: "same_id k a \<Longrightarrow> same_id k x \<Longrightarrow> idNum a \<le> idNum x"
  by (simp add: same_id_def)

lemma sorted_insert_cmp:
  "sorted_wrt descending ys \<Longrightarrow> sorted_wrt descending (insert_cmp compareIds x ys)"
  by (induction ys) (auto simp add: set_insert_cmp descending_iff compareIds_le)

lemma sorted_sort_cmp: "sorted_wrt descending (sort_cmp compareIds xs)"
  by (induction xs) (simp_all add: sort_cmp_def sorted_insert_cmp)

lemma filter_insert_cmp:
  "filter (same_id k) (insert_cmp compareIds x ys)
     = (if same_id k x then x # filter (same_id k) ys else filter (same_id k) ys)"
  by (induction ys) (auto simp add: compareIds_le dest: same_id_le)

lemma filter_sort_cmp: "filter (same_id k) (sort_cmp compareIds xs) = filter (same_id k) xs"
  by (induction xs) (simp_all add: sort_cmp_def filter_insert_cmp)

lemma idNum_parse:
  "idNum r = (case parseInt_str (toString (get_prop r ''id'')) of None \<Rightarrow> 0 | Some n \<Rightarrow> n)"
  by (simp add: idNum_def parseInt_def js_or_def split: option.splits)

text \<open>
  Claim C4.  For an array of records \<open>renderTable\<close> throws nothing and shows, for a
  non-empty array, the rows of the records as sorted by the comparator.  The sorted array is
  in descending order of the number \<open>parseInt(id) || 0\<close>, it holds the same records, and
  records with the same number keep their order.  That number is the integer read from the
  identifier, and 0 when none can be read, as for a missing identifier or the text "abc".
  The records with identifiers 3, "10", null, 7 come out as "10", 7, 3, null.
\<close>

theorem renderTable_order:
  "tableRows (fst (renderTable env (JsonArray rs) st))
     = (if rs = [] then [placeholder_row] else map (renderRow env) (sort_cmp compareIds rs))
   \<and> snd (renderTable env (JsonArray rs) st) = None
   \<and> sorted_wrt descending (sort_cmp compareIds rs)
   \<and> mset (sort_cmp compareIds rs) = mset rs
   \<and> filter (same_id k) (sort_cmp compareIds rs) = filter (same_id k) rs
   \<and> idNum r = (case parseInt_str (toString (get_prop r ''id'')) of None \<Rightarrow> 0 | Some n \<Rightarrow> n)
   \<and> idNum [] = 0
   \<and> idNum [(''id'', JStr ''abc'')] = 0
   \<and> map id_of (sort_cmp compareIds unsorted) = [JStr ''10'', JNum 7, JNum 3, JNull]"
proof -
  have a: "tableRows (fst (renderTable env (JsonArray rs) st))
     = (if rs = [] then [placeholder_row] else map (renderRow env) (sort_cmp compareIds rs))"
    by (simp add: renderTable_def Let_def)
  have b: "snd (renderTable env (JsonArray rs) st) = None"
    by (simp add: renderTable_def Let_def)
  have n3: "idNum [(''id'', JNum 3)] = 3" and n10: "idNum [(''id'', JStr ''10'')] = 10"
    and n0: "idNum [(''id'', JNull)] = 0" and n7: "idNum [(''id'', JNum 7)] = 7"
    and u: "idNum [] = 0" and abc: "idNum [(''id'', JStr ''abc'')] = 0"
    by (simp_all add: idNum_parse get_prop_def parse_eval num_toString_def magnitude_toString_def
        nat_digits.simps digit_char_def)
  have e: "map id_of (sort_cmp compareIds unsorted) = [JStr ''10'', JNum 7, JNum 3, JNull]"
    by (simp add: unsorted_def sort_cmp_def compareIds_def n3 n10 n0 n7 get_prop_def)
  from a b e u abc show ?thesis
    by (simp only: sorted_sort_cmp mset_sort_cmp filter_sort_cmp idNum_parse [of r] simp_thms)
qed

section \<open>Table rows and failed listings\<close>





lemmas xml_eval = xml_parse_def parseFromString_def parse_start_def step.simps set_mode_def flush_text_def
  add_node_def open_elem_def close_elem_def empty_elem_def xml_char_def xml_space_def name_start_def
  name_char_def dec_digit_def predefined_def

text \<open>
  Claim C8 does not hold of the code.  With a row in the table and the response format set
  to XML, a 500 response with the body "Internal Server Error" replaces the table by the
  "No reservations found" row and shows no message at all.  With the format set to JSON, a
  500 response whose body is a JSON object empties the table.  Only a rejected \<open>fetch\<close>
  leaves the table as it was.
\<close>

theorem load_ignores_status:
  "tableRows listed = [''<td>#7</td>'']
   \<and> \<not> ok plain_error
   \<and> tableRows (loadReservations sample_env (Responded plain_error) listed) = [placeholder_row]
   \<and> filter is_message (log (loadReservations sample_env (Responded plain_error) listed)) = []
   \<and> \<not> ok server_error
   \<and> tableRows (loadReservations sample_env (Responded server_error) listed_json) = []
   \<and> tableRows (loadReservations sample_env offline listed) = [''<td>#7</td>'']"
proof -
  have p: "xml_parse ''Internal Server Error'' = None"
    by (simp add: xml_eval)
  have a: "tableRows (loadReservations sample_env (Responded plain_error) listed) = [placeholder_row]"
    by (simp add: loadReservations_def Let_def listed_def initial_def sample_form_def form_of_def
        plain_error_def parseFromString_def p doc_getElementsByTagName_def renderTable_def)
  have b: "filter is_message (log (loadReservations sample_env (Responded plain_error) listed)) = []"
    by (simp add: loadReservations_def Let_def listed_def initial_def sample_form_def form_of_def
        plain_error_def parseFromString_def p doc_getElementsByTagName_def renderTable_def)
  have c: "tableRows (loadReservations sample_env (Responded server_error) listed_json) = []"
    by (simp add: loadReservations_def Let_def listed_json_def listed_def initial_def form_of_def
        server_error_def renderTable_def get_prop_def load_failed_def showMessage_def)
  have d: "tableRows (loadReservations sample_env offline listed) = [''<td>#7</td>'']"
    by (simp add: loadReservations_def Let_def listed_def initial_def offline_def
        load_failed_def showMessage_def)
  have e: "\<not> ok plain_error" "\<not> ok server_error"
    by (simp_all add: ok_def plain_error_def server_error_def)
  have f: "tableRows listed = [''<td>#7</td>'']" by (simp add: listed_def)
  from a b c d e f show ?thesis by blast
qed

section \<open>The XML round trip\<close>

lemma parse_chars_append:
  "parse_chars (xs @ ys) st = (case parse_chars xs st of None \<Rightarrow> None | Some st' \<Rightarrow> parse_chars ys st')"
  by (induction xs arbitrary: st) (simp_all split: option.splits)

lemma parse_seq:
  "parse_chars xs st = Some st1 \<Longrightarrow> parse_chars ys st1 = Some st2 \<Longrightarrow> parse_chars (xs @ ys) st = Some st2"
  by (simp add: parse_chars_append)

lemma printable_xml_char: "printable c \<Longrightarrow> xml_char c"
  by (simp add: printable_def xml_char_def)

lemma step_plain:
  "c \<noteq> CHR ''<'' \<Longrightarrow> c \<noteq> CHR ''&'' \<Longrightarrow> c \<noteq> CHR ''>'' \<Longrightarrow> xml_char c \<Longrightarrow>
   step c \<lparr>p_mode = Content acc, p_open = opn, p_root = r\<rparr>
     = Some \<lparr>p_mode = Content (acc @ [c]), p_open = opn, p_root = r\<rparr>"
  by (simp add: step.simps set_mode_def)

lemma parse_entity:
  assumes "printable c" and "opn \<noteq> []"
  shows "parse_chars (xml_entity c) \<lparr>p_mode = Content acc, p_open = opn, p_root = r\<rparr>
           = Some \<lparr>p_mode = Content (acc @ [c]), p_open = opn, p_root = r\<rparr>"
proof -
  consider "c = CHR ''&''" | "c = CHR ''<''" | "c = CHR ''>''" | "c = CHR 0x22" | "c = apostrophe"
    | "c \<noteq> CHR ''&''" "c \<noteq> CHR ''<''" "c \<noteq> CHR ''>''" "c \<noteq> CHR 0x22" "c \<noteq> apostrophe"
    by blast
  then show ?thesis
  proof cases
    case 6
    with assms show ?thesis
      by (simp add: xml_entity_def step_plain printable_xml_char)
  qed (use assms in \<open>simp_all add: xml_entity_def step.simps set_mode_def name_char_def name_start_def
        dec_digit_def predefined_def xml_char_def\<close>)
qed

lemma parse_escaped:
  assumes "list_all printable v" and "opn \<noteq> []"
  shows "parse_chars (escapeXml v) \<lparr>p_mode = Content acc, p_open = opn, p_root = r\<rparr>
           = Some \<lparr>p_mode = Content (acc @ v), p_open = opn, p_root = r\<rparr>"
  using assms
  by (induction v arbitrary: acc)
     (simp_all add: escapeXml_Nil escapeXml_Cons parse_chars_append parse_entity)


lemma parse_open_name:
  "list_all name_char t \<Longrightarrow>
   parse_chars t \<lparr>p_mode = OpenName n, p_open = opn, p_root = r\<rparr>
     = Some \<lparr>p_mode = OpenName (n @ t), p_open = opn, p_root = r\<rparr>"
  by (induction t arbitrary: n) (simp_all add: step.simps set_mode_def)

lemma parse_close_name:
  "list_all name_char t \<Longrightarrow> n \<noteq> [] \<Longrightarrow>
   parse_chars t \<lparr>p_mode = CloseName n, p_open = opn, p_root = r\<rparr>
     = Some \<lparr>p_mode = CloseName (n @ t), p_open = opn, p_root = r\<rparr>"
  by (induction t arbitrary: n) (simp_all add: step.simps set_mode_def)

lemma name_start_not_markup:
  "name_start c \<Longrightarrow> c \<noteq> CHR ''?'' \<and> c \<noteq> CHR ''/''"
  by (auto simp add: name_start_def)

lemma name_char_not_close:
  "name_char c \<Longrightarrow> c \<noteq> CHR ''>''"
  by (auto simp add: name_char_def name_start_def dec_digit_def)

lemma not_name_char_gt: "\<not> name_char (CHR ''>'')" "\<not> xml_space (CHR ''>'')"
  by (simp_all add: name_char_def name_start_def dec_digit_def xml_space_def)

lemma parse_start_tag:
  assumes "tag_name t" and "acc \<noteq> []"
  shows "parse_chars (''<'' @ t @ ''>'') \<lparr>p_mode = Content acc, p_open = (n, a, kids) # rest, p_root = r\<rparr>
           = Some \<lparr>p_mode = Content [], p_open = (t, [], []) # (n, a, kids @ [Text acc]) # rest, p_root = r\<rparr>"
proof -
  from assms(1) obtain c cs where t: "t = c # cs" "name_start c" "list_all name_char cs"
    by (cases t) (auto simp add: tag_name_def)
  from t(2) have c: "c \<noteq> CHR ''?''" "c \<noteq> CHR ''/''" using name_start_not_markup by blast+
  show ?thesis
    using assms(2) c t(2)
    by (simp add: t(1) parse_chars_append parse_open_name [OF t(3)] step.simps set_mode_def
        flush_text_def add_node_def open_elem_def not_name_char_gt)
qed

lemma parse_end_tag:
  assumes "tag_name t"
  shows "parse_chars (''</'' @ t @ ''>'') \<lparr>p_mode = Content acc, p_open = (t, [], []) # (n, a, kids) # rest, p_root = r\<rparr>
           = Some \<lparr>p_mode = Content [],
                    p_open = (n, a, kids @ [Element t [] (text_kids acc)]) # rest,
                    p_root = r\<rparr>"
proof -
  from assms(1) obtain c cs where t: "t = c # cs" "name_start c" "list_all name_char cs"
    by (cases t) (auto simp add: tag_name_def)
  show ?thesis
    using t(2)
    by (simp add: t(1) parse_chars_append parse_close_name [OF t(3)] step.simps set_mode_def
        flush_text_def add_node_def close_elem_def not_name_char_gt text_kids_def)
qed

lemma parse_xml_line:
  assumes "tag_name t" and "list_all printable v"
  shows "parse_chars (xml_line t v) \<lparr>p_mode = Content nl, p_open = (n, a, kids) # rest, p_root = r\<rparr>
           = Some \<lparr>p_mode = Content nl,
                    p_open = (n, a, kids @ [Text (nl @ ''    ''), Element t [] (text_kids v)]) # rest,
                    p_root = r\<rparr>"
proof -
  define otag where "otag = ''<'' @ t @ ''>''"
  define ctag where "ctag = ''</'' @ t @ ''>''"
  define val where "val = escapeXml v"
  define ind where "ind = ''    ''"
  have 1: "parse_chars ind \<lparr>p_mode = Content nl, p_open = (n, a, kids) # rest, p_root = r\<rparr>
             = Some \<lparr>p_mode = Content (nl @ ''    ''), p_open = (n, a, kids) # rest, p_root = r\<rparr>"
    by (simp add: ind_def step.simps set_mode_def xml_char_def nl_def)
  have 2: "parse_chars otag \<lparr>p_mode = Content (nl @ ''    ''), p_open = (n, a, kids) # rest, p_root = r\<rparr>
             = Some \<lparr>p_mode = Content [], p_open = (t, [], []) # (n, a, kids @ [Text (nl @ ''    '')]) # rest, p_root = r\<rparr>"
    unfolding otag_def by (rule parse_start_tag [OF assms(1)]) simp
  have 3: "parse_chars val \<lparr>p_mode = Content [], p_open = (t, [], []) # (n, a, kids @ [Text (nl @ ''    '')]) # rest, p_root = r\<rparr>
             = Some \<lparr>p_mode = Content v, p_open = (t, [], []) # (n, a, kids @ [Text (nl @ ''    '')]) # rest, p_root = r\<rparr>"
    unfolding val_def
    using parse_escaped [OF assms(2), of "(t, [], []) # (n, a, kids @ [Text (nl @ ''    '')]) # rest" "[]" r]
    by simp
  have 4: "parse_chars ctag \<lparr>p_mode = Content v, p_open = (t, [], []) # (n, a, kids @ [Text (nl @ ''    '')]) # rest, p_root = r\<rparr>
             = Some \<lparr>p_mode = Content [],
                    p_open = (n, a, (kids @ [Text (nl @ ''    '')]) @ [Element t [] (text_kids v)]) # rest,
                    p_root = r\<rparr>"
    unfolding ctag_def by (rule parse_end_tag [OF assms(1)])
  have 5: "parse_chars nl \<lparr>p_mode = Content [], p_open = opn, p_root = r\<rparr>
             = Some \<lparr>p_mode = Content nl, p_open = opn, p_root = r\<rparr>" for opn
    by (simp add: step.simps set_mode_def xml_char_def xml_space_def nl_def)
  have x: "xml_line t v = ind @ otag @ val @ ctag @ nl"
    by (simp add: xml_line_def otag_def ctag_def val_def ind_def)
  note parse_seq [OF 1 parse_seq [OF 2 parse_seq [OF 3 parse_seq [OF 4 5]]]]
  then show ?thesis by (simp add: x)
qed

lemma field_nodes_pair:
  "field_nodes (t, v) = [Text (nl @ ''    ''), Element t [] (text_kids v)]"
  by (simp add: field_nodes_def)

lemma parse_xml_lines:
  assumes "list_all (\<lambda>f. tag_name (fst f) \<and> list_all printable (snd f)) fs"
  shows "parse_chars (concat (map (\<lambda>(tag, v). xml_line tag v) fs))
           \<lparr>p_mode = Content nl, p_open = (n, a, kids) # rest, p_root = r\<rparr>
         = Some \<lparr>p_mode = Content nl, p_open = (n, a, kids @ concat (map field_nodes fs)) # rest, p_root = r\<rparr>"
  using assms
proof (induction fs arbitrary: kids)
  case Nil
  show ?case by simp
next
  case (Cons f fs)
  obtain t v where f: "f = (t, v)" by (cases f)
  from Cons.prems have tv: "tag_name t" "list_all printable v" and fs: "list_all (\<lambda>f. tag_name (fst f) \<and> list_all printable (snd f)) fs"
    by (simp_all add: f)
  have "parse_chars (xml_line t v @ concat (map (\<lambda>(tag, v). xml_line tag v) fs))
           \<lparr>p_mode = Content nl, p_open = (n, a, kids) # rest, p_root = r\<rparr>
         = Some \<lparr>p_mode = Content nl,
                  p_open = (n, a, (kids @ [Text (nl @ ''    ''), Element t [] (text_kids v)])
                                   @ concat (map field_nodes fs)) # rest,
                  p_root = r\<rparr>"
    by (rule parse_seq [OF parse_xml_line [OF tv] Cons.IH [OF fs]])
  then show ?case by (simp add: f field_nodes_pair)
qed


lemma or_str_Nil: "or_str a [] = a"
  by (simp add: or_str_def)

lemma normalize_eol_Cons: "c \<noteq> CHR 0x0D \<Longrightarrow> normalize_eol (c # s) = c # normalize_eol s"
  by (cases s) simp_all

lemma normalize_eol_id: "CHR 0x0D \<notin> set s \<Longrightarrow> normalize_eol s = s"
proof (induction s)
  case Nil
  show ?case by simp
next
  case (Cons c s)
  from Cons.prems have c: "c \<noteq> CHR 0x0D" and s: "CHR 0x0D \<notin> set s" by auto
  from Cons.IH [OF s] show ?case by (simp only: normalize_eol_Cons [OF c])
qed

lemma entity_not_cr:
  assumes "printable c"
  shows "CHR 0x0D \<notin> set (xml_entity c)"
proof -
  have "\<not> printable (CHR 0x0D)" by (simp add: printable_def)
  with assms have "CHR 0x0D \<noteq> c" by blast
  then show ?thesis by (simp add: xml_entity_def)
qed

lemma printable_not_cr: "list_all printable v \<Longrightarrow> CHR 0x0D \<notin> set (escapeXml v)"
  by (induction v) (simp_all add: escapeXml_Nil escapeXml_Cons entity_not_cr)

lemma xml_line_no_cr:
  "CHR 0x0D \<notin> set t \<Longrightarrow> list_all printable v \<Longrightarrow> CHR 0x0D \<notin> set (xml_line t v)"
  by (simp add: xml_line_def printable_not_cr nl_def)

lemma sendable_fields:
  assumes "sendable fd"
  shows "list_all (\<lambda>f. tag_name (fst f) \<and> list_all printable (snd f)) (xml_fields fd)"
    and "CHR 0x0D \<notin> set (concat (map (\<lambda>(tag, v). xml_line tag v) (xml_fields fd)))"
proof -
  from assms have p: "list_all printable (guest_name fd)" "list_all printable (email fd)"
    "list_all printable (phone fd)" "list_all printable (street_address fd)"
    "list_all printable (municipality fd)" "list_all printable (region fd)"
    "list_all printable (country fd)" "list_all printable (resort_name fd)"
    "list_all printable (checkin_date fd)" "list_all printable (checkout_date fd)"
    "list_all printable (payment_gateway fd)" "list_all printable (toString (guests fd))"
    by (simp_all add: sendable_def string_fields_def)
  show "list_all (\<lambda>f. tag_name (fst f) \<and> list_all printable (snd f)) (xml_fields fd)"
    by (simp add: xml_fields_def p or_str_Nil tag_name_def name_start_def name_char_def dec_digit_def)
  show "CHR 0x0D \<notin> set (concat (map (\<lambda>(tag, v). xml_line tag v) (xml_fields fd)))"
    by (simp add: xml_fields_def p or_str_Nil xml_line_no_cr)
qed

lemma parse_body:
  assumes "sendable fd"
  shows "xml_parse (xmlBody fd) = Some (body_tree fd)"
proof -
  define lines where "lines = concat (map (\<lambda>(tag, v). xml_line tag v) (xml_fields fd))"
  define hd where "hd = xml_prolog @ nl @ ''<reservation>'' @ nl"
  define tl where "tl = ''</reservation>''"
  have b: "xmlBody fd = hd @ lines @ tl"
    by (simp add: xmlBody_def hd_def lines_def tl_def)
  have cr: "CHR 0x0D \<notin> set (xmlBody fd)"
    using sendable_fields(2) [OF assms]
    by (simp add: b lines_def hd_def tl_def xml_prolog_def nl_def)
  have 1: "parse_chars hd parse_start
             = Some \<lparr>p_mode = Content nl, p_open = [(''reservation'', [], [])], p_root = None\<rparr>"
    by (simp add: hd_def xml_prolog_def nl_def parse_start_def step.simps set_mode_def flush_text_def
        open_elem_def xml_char_def xml_space_def name_start_def name_char_def dec_digit_def)
  have 2: "parse_chars lines \<lparr>p_mode = Content nl, p_open = [(''reservation'', [], [])], p_root = None\<rparr>
             = Some \<lparr>p_mode = Content nl,
                      p_open = [(''reservation'', [], [] @ concat (map field_nodes (xml_fields fd)))],
                      p_root = None\<rparr>"
    unfolding lines_def by (rule parse_xml_lines [OF sendable_fields(1) [OF assms]])
  have 3: "parse_chars tl \<lparr>p_mode = Content nl,
                      p_open = [(''reservation'', [], [] @ concat (map field_nodes (xml_fields fd)))],
                      p_root = None\<rparr>
             = Some \<lparr>p_mode = Content [], p_open = [], p_root = Some (body_tree fd)\<rparr>"
    by (simp add: tl_def nl_def step.simps set_mode_def flush_text_def add_node_def close_elem_def
        xml_char_def xml_space_def name_start_def name_char_def dec_digit_def body_tree_def)
  have "parse_chars (xmlBody fd) parse_start
          = Some \<lparr>p_mode = Content [], p_open = [], p_root = Some (body_tree fd)\<rparr>"
    unfolding b by (rule parse_seq [OF 1 parse_seq [OF 2 3]])
  then show ?thesis
    by (simp add: xml_parse_def normalize_eol_id [OF cr])
qed

lemma elements_text_kids: "concat (map elements (text_kids v)) = []"
  by (simp add: text_kids_def)

lemma textContent_text_kids: "concat (map textContent (text_kids v)) = v"
  by (simp add: text_kids_def)

lemma read_body_tree:
  "map readReservation (doc_getElementsByTagName (body_tree fd) ''reservation'')
     = [[(''id'', JStr []),
         (''guest_name'', JStr (guest_name fd)),
         (''email'', JStr (email fd)),
         (''phone'', JStr (phone fd)),
         (''street_address'', JStr (street_address fd)),
         (''municipality'', JStr (municipality fd)),
         (''region'', JStr (region fd)),
         (''country'', JStr (country fd)),
         (''resort_name'', JStr (resort_name fd)),
         (''checkin_date'', JStr (checkin_date fd)),
         (''checkout_date'', JStr (checkout_date fd)),
         (''guests'', parseInt (js_or (JStr (toString (guests fd))) (JNum 1))),
         (''payment_gateway'', JStr (payment_gateway fd)),
         (''created_at'', JStr [])]]"
  by (simp add: body_tree_def xml_fields_def field_nodes_pair doc_getElementsByTagName_def
      elements_text_kids textContent_text_kids readReservation_def getXmlValue_def
      getElementsByTagName_def js_or_def or_str_Nil)


lemma read_back:
  assumes "sendable fd"
  shows "roundTrip fd = [(as_listed fd)[11 := (''guests'', parseInt (js_or (JStr (toString (guests fd))) (JNum 1)))]]"
  by (simp add: roundTrip_def parseFromString_def parse_body [OF assms] read_body_tree as_listed_def)

lemma digit_cases:
  "d < 10 \<Longrightarrow> d = 0 \<or> d = 1 \<or> d = 2 \<or> d = 3 \<or> d = 4 \<or> d = 5 \<or> d = 6 \<or> d = 7 \<or> d = 8 \<or> d = (9::nat)"
  by arith

lemma digit_char_props:
  assumes "d < 10"
  shows "dec_digit (digit_char d)" and "digit_val (digit_char d) = Some d"
    and "printable (digit_char d)" and "\<not> js_space (digit_char d)"
    and "digit_char d \<noteq> CHR ''-''" and "digit_char d \<noteq> CHR ''+''"
    and "digit_char d \<noteq> CHR ''x''" and "digit_char d \<noteq> CHR ''X''"
  using digit_cases [OF assms]
  by (elim disjE; simp add: digit_char_def dec_digit_def digit_val_def printable_def js_space_def)+

lemma nat_digits_snoc:
  "nat_digits m = (if m < 10 then [] else nat_digits (m div 10)) @ [digit_char (m mod 10)]"
  by (subst nat_digits.simps) simp

lemma nat_digits_text: "digit_text (nat_digits m)"
proof (induction m rule: nat_digits.induct)
  case (1 m)
  have "m mod 10 < 10" by simp
  then have l: "\<exists>d < 10. digit_char (m mod 10) = digit_char d" by blast
  show ?case
  proof (cases "m < 10")
    case True
    then show ?thesis using l by (subst nat_digits.simps) (simp add: digit_text_def)
  next
    case False
    with 1 have "digit_text (nat_digits (m div 10))" by simp
    with False l show ?thesis by (subst nat_digits.simps) (auto simp add: digit_text_def)
  qed
qed

lemma nat_digits_not_Nil: "nat_digits m \<noteq> []"
  by (subst nat_digits.simps) simp

lemma digits_value_snoc:
  "digits_value r (xs @ [c]) = digits_value r xs * r + (case digit_val c of None \<Rightarrow> 0 | Some d \<Rightarrow> d)"
  by (simp add: digits_value_def)

lemma digits_value_nat_digits: "digits_value 10 (nat_digits m) = m"
proof (induction m rule: nat_digits.induct)
  case (1 m)
  have d: "digit_val (digit_char (m mod 10)) = Some (m mod 10)"
    by (rule digit_char_props(2)) simp
  show ?case
  proof (cases "m < 10")
    case True
    then show ?thesis by (subst nat_digits.simps) (simp add: digits_value_def digit_char_props(2))
  next
    case False
    with 1 have "digits_value 10 (nat_digits (m div 10)) = m div 10" by simp
    with False show ?thesis
      by (subst nat_digits.simps) (simp add: digits_value_snoc d)
  qed
qed

lemma digit_text_Cons:
  "digit_text (c # s) \<longleftrightarrow> (\<exists>d < 10. c = digit_char d) \<and> digit_text s"
  by (simp add: digit_text_def)

lemma digit_text_takeWhile: "digit_text s \<Longrightarrow> takeWhile (is_digit_in 10) s = s"
proof (induction s)
  case Nil show ?case by simp
next
  case (Cons c s)
  from Cons.prems obtain d where d: "d < 10" "c = digit_char d" and s: "digit_text s"
    by (auto simp add: digit_text_Cons)
  have "is_digit_in 10 c" using d by (simp add: is_digit_in_def digit_char_props(2))
  with Cons.IH [OF s] show ?case by simp
qed

lemma digit_text_printable: "digit_text s \<Longrightarrow> list_all printable s"
  by (auto simp add: digit_text_def list_all_iff digit_char_props(3))

lemma parseInt_str_digits:
  assumes "digit_text s" and "s \<noteq> []"
  shows "parseInt_str s = Some (int (digits_value 10 s))"
    and "parseInt_str (CHR ''-'' # s) = Some (- int (digits_value 10 s))"
proof -
  from assms obtain c cs where s: "s = c # cs" by (cases s) auto
  from assms(1) obtain d where d: "d < 10" "c = digit_char d" by (auto simp add: s digit_text_def)
  note c = digit_char_props [OF d(1), folded d(2)]
  have x: "take 2 s \<noteq> ''0x''" "take 2 s \<noteq> ''0X''"
  proof -
    show "take 2 s \<noteq> ''0x''"
    proof (cases cs)
      case Nil then show ?thesis by (simp add: s)
    next
      case (Cons e es)
      with assms(1) obtain k where k: "k < 10" "e = digit_char k" by (auto simp add: s digit_text_def)
      have "e \<noteq> CHR ''x''" unfolding k(2) by (rule digit_char_props(7) [OF k(1)])
      with Cons show ?thesis by (simp add: s)
    qed
    show "take 2 s \<noteq> ''0X''"
    proof (cases cs)
      case Nil then show ?thesis by (simp add: s)
    next
      case (Cons e es)
      with assms(1) obtain k where k: "k < 10" "e = digit_char k" by (auto simp add: s digit_text_def)
      have "e \<noteq> CHR ''X''" unfolding k(2) by (rule digit_char_props(8) [OF k(1)])
      with Cons show ?thesis by (simp add: s)
    qed
  qed
  have t: "takeWhile (is_digit_in 10) s = s" by (rule digit_text_takeWhile [OF assms(1)])
  have ds: "dropWhile js_space s = s" using c(4) by (simp add: s)
  have hd: "hd s \<noteq> CHR ''-''" "hd s \<noteq> CHR ''+''" using c(5,6) by (simp_all add: s)
  show "parseInt_str s = Some (int (digits_value 10 s))"
    using assms(2) x hd by (simp add: parseInt_str_def trimStart_def ds Let_def t)
  show "parseInt_str (CHR ''-'' # s) = Some (- int (digits_value 10 s))"
    using assms(2) x by (simp add: parseInt_str_def trimStart_def js_space_def Let_def t)
qed

lemma num_toString_small:
  assumes "\<bar>n\<bar> < 10 ^ 21"
  shows "parseInt_str (num_toString n) = Some n" and "list_all printable (num_toString n)"
    and "num_toString n \<noteq> []"
proof -
  have m: "nat \<bar>n\<bar> < 10 ^ 21" using assms by (simp add: nat_less_iff)
  show "parseInt_str (num_toString n) = Some n"
  proof (cases "n < 0")
    case True
    with m have "nat (- n) < 10 ^ 21" by simp
    with True show ?thesis
      by (simp add: num_toString_def magnitude_toString_def
          parseInt_str_digits(2) [OF nat_digits_text nat_digits_not_Nil] digits_value_nat_digits)
  next
    case False
    with m have "nat n < 10 ^ 21" by simp
    with False show ?thesis
      by (simp add: num_toString_def magnitude_toString_def
          parseInt_str_digits(1) [OF nat_digits_text nat_digits_not_Nil] digits_value_nat_digits)
  qed
  show "list_all printable (num_toString n)"
  proof (cases "n < 0")
    case True
    with m have "nat (- n) < 10 ^ 21" by simp
    with True show ?thesis
      by (simp add: num_toString_def magnitude_toString_def digit_text_printable [OF nat_digits_text]
          printable_def)
  next
    case False
    with m have "nat n < 10 ^ 21" by simp
    with False show ?thesis
      by (simp add: num_toString_def magnitude_toString_def digit_text_printable [OF nat_digits_text])
  qed
  show "num_toString n \<noteq> []"
    by (simp add: num_toString_def magnitude_toString_def nat_digits_not_Nil exp_form_def Let_def)
qed

text \<open>
  Claim C3, as amended.  For a record whose text fields are printable ASCII and whose guest
  count is an integer of magnitude below \<open>10^21\<close>, the request body built by
  \<open>submitReservation\<close> is well-formed, its tree is the \<open>reservation\<close> element with one
  child element per field, and \<open>loadReservations\<close> reads from it exactly one record, with
  every field equal to the original, an empty identifier and an empty creation time.
\<close>

theorem xml_round_trip:
  assumes "list_all (list_all printable) (string_fields fd)" and "guests fd = JNum n" and "\<bar>n\<bar> < 10 ^ 21"
  shows "xml_parse (xmlBody fd) = Some (body_tree fd) \<and> roundTrip fd = [as_listed fd]"
proof -
  note n = num_toString_small [OF assms(3)]
  have s: "sendable fd" by (simp add: sendable_def assms(1,2) n(2))
  have g: "parseInt (js_or (JStr (toString (guests fd))) (JNum 1)) = guests fd"
    by (simp add: assms(2) js_or_def n(3) parseInt_def n(1))
  have "(as_listed fd)[11 := (''guests'', guests fd)] = as_listed fd"
    by (simp add: as_listed_def)
  with read_back [OF s] g parse_body [OF s] show ?thesis by simp
qed


text \<open>
  The theorem at a booking for two whose guest name holds an ampersand and angle brackets.
\<close>

theorem xml_round_trip_witness:
  "list_all (list_all printable) (string_fields sample_record)
   \<and> guests sample_record = JNum 2
   \<and> \<bar>2 :: int\<bar> < 10 ^ 21
   \<and> roundTrip sample_record = [as_listed sample_record]"
proof -
  have a: "list_all (list_all printable) (string_fields sample_record)"
    by (simp add: sample_record_def string_fields_def printable_def)
  have b: "guests sample_record = JNum 2" by (simp add: sample_record_def)
  have c: "\<bar>2 :: int\<bar> < 10 ^ 21" by simp
  from xml_round_trip [OF a b c] a b c show ?thesis by blast
qed

lemma nat_digits_numeral:
  "nat_digits (numeral k) =
     (if (numeral k :: nat) < 10 then [digit_char (numeral k)]
      else nat_digits (numeral k div 10) @ [digit_char (numeral k mod 10)])"
  by (rule nat_digits.simps)

lemma nat_digits_Suc_0: "nat_digits (Suc 0) = ''1''"
  by (simp add: nat_digits.simps digit_char_def)

lemma exponent10_numeral:
  "exponent10 (numeral k) = (if (numeral k :: nat) < 10 then 0 else 1 + exponent10 (numeral k div 10))"
  by (rule exponent10.simps)

lemma exponent10_Suc_0: "exponent10 (Suc 0) = 0"
  by (simp add: exponent10.simps)

lemma toString_sextillion: "num_toString 1000000000000000000000 = ''1e+21''"
proof -
  have e: "exponent10 1000000000000000000000 = 21"
    by (simp add: exponent10_numeral exponent10_Suc_0)
  have d: "nat_digits 1000000000000000000000 = ''1000000000000000000000''"
    by (simp add: nat_digits_numeral nat_digits_Suc_0 digit_char_def)
  have t: "nat_digits 21 = ''21''"
    by (simp add: nat_digits_numeral digit_char_def)
  show ?thesis
    by (simp add: num_toString_def magnitude_toString_def exp_form_def e d t strip_zeros_def)
qed

text \<open>
  Claim C3 as stated fails on the guest count: \<open>10^21\<close> is printed as \<open>1e+21\<close>, which
  \<open>parseInt\<close> reads back as 1.
\<close>

theorem xml_round_trip_counterexample:
  "list_all (list_all printable) (string_fields big_party)
   \<and> guests big_party = JNum 1000000000000000000000
   \<and> roundTrip big_party = [as_listed (big_party\<lparr>guests := JNum 1\<rparr>)]
   \<and> roundTrip big_party \<noteq> [as_listed big_party]"
proof -
  have a: "list_all (list_all printable) (string_fields big_party)"
    by (simp add: big_party_def sample_record_def string_fields_def printable_def)
  have b: "guests big_party = JNum 1000000000000000000000" by (simp add: big_party_def)
  have s: "sendable big_party"
    by (simp add: sendable_def a b toString_sextillion printable_def)
  have p: "parseInt (js_or (JStr (toString (guests big_party))) (JNum 1)) = JNum 1"
    by (simp add: b toString_sextillion js_or_def parse_eval)
  have c: "roundTrip big_party = [as_listed (big_party\<lparr>guests := JNum 1\<rparr>)]"
    by (simp add: read_back [OF s] p) (simp add: as_listed_def)
  have d: "roundTrip big_party \<noteq> [as_listed big_party]"
    by (simp add: c) (simp add: as_listed_def b)
  from a b c d show ?thesis by blast
qed

end
